theory Spec2Isabelle
  imports Main
begin

section \<open>Python strings\<close>

text \<open>
  A Python \<open>str\<close> is modelled as a \<open>string\<close> (a list of 8-bit characters), so the model
  covers ASCII text. The string methods the program calls are written out below with
  their Python meaning on that range.
\<close>

definition isspace :: "char \<Rightarrow> bool" where
  \<comment> \<open>\<open>str.isspace\<close> on one ASCII character: tab, line feed, vertical tab, form feed,
      carriage return, the four separators 0x1C..0x1F and the blank.\<close>
  "isspace c = (c \<in> set [CHR 0x09, CHR 0x0A, CHR 0x0B, CHR 0x0C, CHR 0x0D,
                          CHR 0x1C, CHR 0x1D, CHR 0x1E, CHR 0x1F, CHR '' ''])"

definition isdigit :: "char \<Rightarrow> bool" where
  \<comment> \<open>the class \<open>\d\<close> of the \<open>re\<close> module on ASCII\<close>
  "isdigit c = (c \<in> set ''0123456789'')"

definition strip :: "string \<Rightarrow> string" where
  \<comment> \<open>\<open>s.strip()\<close>: leading and trailing whitespace removed\<close>
  "strip s = rev (dropWhile isspace (rev (dropWhile isspace s)))"

definition lower_char :: "char \<Rightarrow> char" where
  "lower_char c =
     (case map_of (zip ''ABCDEFGHIJKLMNOPQRSTUVWXYZ'' ''abcdefghijklmnopqrstuvwxyz'') c of
        None \<Rightarrow> c
      | Some l \<Rightarrow> l)"

definition lower :: "string \<Rightarrow> string" where
  \<comment> \<open>\<open>s.lower()\<close>\<close>
  "lower s = map lower_char s"

fun str_split :: "char \<Rightarrow> string \<Rightarrow> string list" where
  \<comment> \<open>\<open>s.split(sep)\<close> for a one-character separator: never the empty list\<close>
  "str_split sep [] = [[]]"
| "str_split sep (c # cs) =
     (if c = sep then [] # str_split sep cs
      else (case str_split sep cs of
              [] \<Rightarrow> [[c]]
            | p # ps \<Rightarrow> (c # p) # ps))"

fun str_join :: "string \<Rightarrow> string list \<Rightarrow> string" where
  \<comment> \<open>\<open>sep.join(xs)\<close>\<close>
  "str_join sep [] = []"
| "str_join sep [x] = x"
| "str_join sep (x # y # ys) = x @ sep @ str_join sep (y # ys)"

fun startswith :: "string \<Rightarrow> string \<Rightarrow> bool" where
  \<comment> \<open>\<open>s.startswith(p)\<close>, with the text first: \<open>startswith s p\<close>\<close>
  "startswith s [] = True"
| "startswith [] (p # ps) = False"
| "startswith (c # cs) (p # ps) = (c = p \<and> startswith cs ps)"

fun str_contains :: "string \<Rightarrow> string \<Rightarrow> bool" where
  \<comment> \<open>\<open>sub in s\<close>, with the text first: \<open>str_contains s sub\<close>\<close>
  "str_contains [] sub = (sub = [])"
| "str_contains (c # cs) sub = (startswith (c # cs) sub \<or> str_contains cs sub)"

fun str_replace :: "char \<Rightarrow> char \<Rightarrow> string \<Rightarrow> string" where
  \<comment> \<open>\<open>s.replace(a, b)\<close> for one-character \<open>a\<close> and \<open>b\<close>\<close>
  "str_replace a b s = map (\<lambda>c. if c = a then b else c) s"

section \<open>Errors\<close>

text \<open>
  The exceptions the program can raise, as values. \<open>ValueError\<close> and \<open>KeyError\<close> carry
  their argument (the message, the missing key). \<open>EOFError\<close> is what \<open>input()\<close> raises
  when standard input is exhausted. \<open>UnicodeDecodeError\<close> is raised when a file read as
  text holds bytes that are not text, \<open>TypeError\<close> when a value that is not a dictionary
  is indexed by a key, and \<open>FileNotFoundError\<close> when \<open>open\<close> is given a path through a
  directory that does not exist.
\<close>

datatype py_error =
    ValueError string
  | KeyError string
  | JSONDecodeError
  | EOFError
  | UnicodeDecodeError
  | TypeError
  | FileNotFoundError

section \<open>Song\<close>

record song =
  name :: string
  artists :: "string list"
  album :: string
  genre :: string
  duration :: string

definition duration_re_match :: "string \<Rightarrow> bool" where
  \<comment> \<open>\<open>re.match(r'^\d+:[0-5]\d$', duration)\<close> as a truth value. The greedy \<open>\d+\<close> takes
      every leading digit (giving one back cannot help: a colon must follow). In Python
      \<open>$\<close> matches at the end of the string and also just before a line feed that ends
      the string.\<close>
  "duration_re_match d =
     (let minutes = takeWhile isdigit d; rest = dropWhile isdigit d
      in minutes \<noteq> [] \<and>
         (case rest of
            c # a # b # trail \<Rightarrow>
              c = CHR '':'' \<and> a \<in> set ''012345'' \<and> isdigit b \<and> (trail = [] \<or> trail = [CHR 0x0A])
          | _ \<Rightarrow> False))"

definition invalid_duration_message :: "string \<Rightarrow> string" where
  "invalid_duration_message d =
     ''Invalid duration format: '' @ d @ ''. Expected format 'mm:ss' or 'hh:mm:ss'.''"

definition Song_init :: "string \<Rightarrow> string \<Rightarrow> string \<Rightarrow> string \<Rightarrow> string \<Rightarrow> py_error + song" where
  \<comment> \<open>\<open>Song.__init__\<close>: \<open>Inl\<close> is the exception raised, and then no object exists\<close>
  "Song_init nm artists_text alb gen dur =
     (if nm = [] then Inl (ValueError ''Song name cannot be empty.'')
      else if \<not> duration_re_match dur then Inl (ValueError (invalid_duration_message dur))
      else Inr \<lparr>name = nm,
                artists = map strip (str_split (CHR '','') artists_text),
                album = alb, genre = gen, duration = dur\<rparr>)"

definition Song_str :: "song \<Rightarrow> string" where
  \<comment> \<open>\<open>Song.__str__\<close>\<close>
  "Song_str s = name s @ '' by '' @ str_join '', '' (artists s)"

text \<open>
  A dictionary with the five keys of a song record. A field is \<open>None\<close> when the key is
  absent; a value that is present has the type \<open>to_dict\<close> writes (values of other JSON
  types are outside this model).
\<close>

record song_dict =
  sd_name :: "string option"
  sd_artists :: "string list option"
  sd_album :: "string option"
  sd_genre :: "string option"
  sd_duration :: "string option"

definition getitem :: "string \<Rightarrow> 'a option \<Rightarrow> py_error + 'a" where
  \<comment> \<open>\<open>data[key]\<close>: \<open>KeyError(key)\<close> when the key is absent\<close>
  "getitem key v = (case v of None \<Rightarrow> Inl (KeyError key) | Some x \<Rightarrow> Inr x)"

definition Song_to_dict :: "song \<Rightarrow> song_dict" where
  "Song_to_dict s =
     \<lparr>sd_name = Some (name s), sd_artists = Some (artists s), sd_album = Some (album s),
      sd_genre = Some (genre s), sd_duration = Some (duration s)\<rparr>"

definition Song_from_dict :: "song_dict \<Rightarrow> py_error + song" where
  \<comment> \<open>the arguments are evaluated in the order written, then \<open>Song\<close> is called\<close>
  "Song_from_dict data =
     (case getitem ''name'' (sd_name data) of Inl e \<Rightarrow> Inl e | Inr nm \<Rightarrow>
      case getitem ''artists'' (sd_artists data) of Inl e \<Rightarrow> Inl e | Inr ars \<Rightarrow>
      case getitem ''album'' (sd_album data) of Inl e \<Rightarrow> Inl e | Inr alb \<Rightarrow>
      case getitem ''genre'' (sd_genre data) of Inl e \<Rightarrow> Inl e | Inr gen \<Rightarrow>
      case getitem ''duration'' (sd_duration data) of Inl e \<Rightarrow> Inl e | Inr dur \<Rightarrow>
        Song_init nm (str_join '', '' ars) alb gen dur)"

section \<open>Playlist\<close>

record playlist =
  pl_name :: string
  pl_songs :: "song list"

definition Playlist_init :: "string \<Rightarrow> playlist" where
  "Playlist_init nm = \<lparr>pl_name = nm, pl_songs = []\<rparr>"

definition Playlist_add_song :: "playlist \<Rightarrow> song \<Rightarrow> playlist" where
  "Playlist_add_song p s = p\<lparr>pl_songs := pl_songs p @ [s]\<rparr>"

definition Playlist_remove_song :: "playlist \<Rightarrow> string \<Rightarrow> playlist" where
  "Playlist_remove_song p song_name =
     p\<lparr>pl_songs := filter (\<lambda>s. lower (name s) \<noteq> lower song_name) (pl_songs p)\<rparr>"

record playlist_dict =
  pd_name :: "string option"
  pd_songs :: "song_dict list option"

definition Playlist_to_dict :: "playlist \<Rightarrow> playlist_dict" where
  "Playlist_to_dict p =
     \<lparr>pd_name = Some (pl_name p), pd_songs = Some (map Song_to_dict (pl_songs p))\<rparr>"

fun Playlist_load_songs :: "playlist \<Rightarrow> song_dict list \<Rightarrow> py_error + playlist" where
  \<comment> \<open>the loop of \<open>Playlist.from_dict\<close>: the first record that fails to build a song
      raises, and the loop ends there\<close>
  "Playlist_load_songs p [] = Inr p"
| "Playlist_load_songs p (song_data # rest) =
     (case Song_from_dict song_data of
        Inl e \<Rightarrow> Inl e
      | Inr s \<Rightarrow> Playlist_load_songs (Playlist_add_song p s) rest)"

definition Playlist_from_dict :: "playlist_dict \<Rightarrow> py_error + playlist" where
  "Playlist_from_dict data =
     (case getitem ''name'' (pd_name data) of Inl e \<Rightarrow> Inl e | Inr nm \<Rightarrow>
      case getitem ''songs'' (pd_songs data) of Inl e \<Rightarrow> Inl e | Inr sds \<Rightarrow>
        Playlist_load_songs (Playlist_init nm) sds)"

section \<open>The data file\<close>

text \<open>
  What \<open>json.load\<close> makes of the data file. Reading the file as text can fail
  (\<open>Undecodable\<close>: \<open>UnicodeDecodeError\<close>); the text can fail to be JSON
  (\<open>Malformed\<close>: \<open>JSONDecodeError\<close>); the JSON value can be something other than an
  object, such as a list, a string, a number or \<open>null\<close> (\<open>NotAnObject\<close>); or it is
  an object (\<open>Document\<close>), whose two top-level keys may each be absent. Inside a
  document, a key may be absent, and a value that is present has the type \<open>save_data\<close>
  writes for it: documents with values of other types are outside this model.
  \<open>json.load\<close> belongs to the Python library, so its result is taken as given, and a
  file that exists is one the program may open.
\<close>

record document =
  doc_songs :: "song_dict list option"
  doc_playlists :: "playlist_dict list option"

datatype file_content = Undecodable | Malformed | NotAnObject | Document document

fun map_result :: "('a \<Rightarrow> py_error + 'b) \<Rightarrow> 'a list \<Rightarrow> py_error + 'b list" where
  \<comment> \<open>a list comprehension \<open>[f(x) for x in xs]\<close> whose \<open>f\<close> may raise: the first
      exception ends it\<close>
  "map_result f [] = Inr []"
| "map_result f (x # xs) =
     (case f x of
        Inl e \<Rightarrow> Inl e
      | Inr y \<Rightarrow> (case map_result f xs of Inl e \<Rightarrow> Inl e | Inr ys \<Rightarrow> Inr (y # ys)))"

section \<open>MusicApp\<close>

text \<open>
  The state of a \<open>MusicApp\<close> object. \<open>data_file\<close> holds what is stored under the path
  \<open>self.data_file\<close>: \<open>None\<close> when no such file exists. A song object is never changed
  after it is built, so songs are values here and sharing one object between the library
  and a playlist is sharing one value. A playlist object is changed in place; each is
  held once, in \<open>playlists\<close>, so changing it is changing that element of the list.
\<close>

record music_app =
  songs :: "song list"
  playlists :: "playlist list"
  undo_stack :: "(string \<times> song) list"
  data_file :: "file_content option"

datatype load_result =
    NoFile                 \<comment> \<open>the path does not exist: nothing is read\<close>
  | Loaded                 \<comment> \<open>both collections were read\<close>
  | Reported py_error      \<comment> \<open>caught by the \<open>except\<close> clause and printed\<close>
  | Raised py_error        \<comment> \<open>not caught: it leaves \<open>load_data\<close>\<close>

definition except_handler :: "music_app \<Rightarrow> py_error \<Rightarrow> music_app \<times> load_result" where
  \<comment> \<open>\<open>except (json.JSONDecodeError, KeyError) as e: print(...)\<close>\<close>
  "except_handler self e =
     (case e of
        JSONDecodeError \<Rightarrow> (self, Reported e)
      | KeyError k \<Rightarrow> (self, Reported e)
      | _ \<Rightarrow> (self, Raised e))"

definition load_data :: "music_app \<Rightarrow> music_app \<times> load_result" where
  \<comment> \<open>\<open>json.load\<close> raises on a file that is not text or not JSON; \<open>data["songs"]\<close>
      raises \<open>TypeError\<close> on a value that is not a dictionary; \<open>self.songs\<close> is
      assigned before the playlists are read\<close>
  "load_data self =
     (case data_file self of
        None \<Rightarrow> (self, NoFile)
      | Some Undecodable \<Rightarrow> except_handler self UnicodeDecodeError
      | Some Malformed \<Rightarrow> except_handler self JSONDecodeError
      | Some NotAnObject \<Rightarrow> except_handler self TypeError
      | Some (Document data) \<Rightarrow>
          (case getitem ''songs'' (doc_songs data) of Inl e \<Rightarrow> except_handler self e | Inr sds \<Rightarrow>
           case map_result Song_from_dict sds of Inl e \<Rightarrow> except_handler self e | Inr ss \<Rightarrow>
           let self1 = self\<lparr>songs := ss\<rparr> in
           case getitem ''playlists'' (doc_playlists data) of
             Inl e \<Rightarrow> except_handler self1 e
           | Inr pds \<Rightarrow>
           case map_result Playlist_from_dict pds of
             Inl e \<Rightarrow> except_handler self1 e
           | Inr ps \<Rightarrow> (self1\<lparr>playlists := ps\<rparr>, Loaded)))"

definition unloaded :: "file_content option \<Rightarrow> music_app" where
  \<comment> \<open>the object as \<open>__init__\<close> has set its fields, before it calls \<open>load_data\<close>\<close>
  "unloaded stored = \<lparr>songs = [], playlists = [], undo_stack = [], data_file = stored\<rparr>"

definition MusicApp_init :: "file_content option \<Rightarrow> music_app \<times> load_result" where
  \<comment> \<open>\<open>MusicApp.__init__\<close>; with \<open>Raised e\<close> the constructor itself raises \<open>e\<close>\<close>
  "MusicApp_init stored = load_data (unloaded stored)"

definition save_data :: "music_app \<Rightarrow> music_app" where
  \<comment> \<open>the file under \<open>self.data_file\<close> is replaced by the two collections; the path is
      one the program can write to\<close>
  "save_data self =
     self\<lparr>data_file := Some (Document
        \<lparr>doc_songs = Some (map Song_to_dict (songs self)),
         doc_playlists = Some (map Playlist_to_dict (playlists self))\<rparr>)\<rparr>"

subsection \<open>Input\<close>

text \<open>
  Standard input is the list of lines still to be read; \<open>input()\<close> takes the first and
  raises \<open>EOFError\<close> when none is left. Each function that reads returns the lines it
  has not consumed.
\<close>

type_synonym stdin = "string list"

fun get_valid_input :: "bool \<Rightarrow> stdin \<Rightarrow> py_error + (string \<times> stdin)" where
  \<comment> \<open>the first argument is \<open>allow_empty\<close>\<close>
  "get_valid_input allow_empty [] = Inl EOFError"
| "get_valid_input allow_empty (line # rest) =
     (let user_input = strip line
      in if user_input \<noteq> [] \<or> allow_empty then Inr (user_input, rest)
         else get_valid_input allow_empty rest)"

fun confirm_action :: "stdin \<Rightarrow> py_error + (bool \<times> stdin)" where
  "confirm_action [] = Inl EOFError"
| "confirm_action (line # rest) =
     (let confirmation = lower line
      in if confirmation \<in> set [''y'', ''n''] then Inr (confirmation = ''y'', rest)
         else confirm_action rest)"

subsection \<open>Operations\<close>

text \<open>What an operation prints, by message.\<close>

datatype message =
    SongAdded string
  | InvalidDurationFormat
  | SongRemoved string
  | ActionCanceled
  | SongNotFound string
  | NothingToUndo
  | UndoRestored string
  | Silent
  | PlaylistCreated
  | PlaylistExported string string
  | PlaylistNotFound
  | AddedToPlaylist
  | SongOrPlaylistNotFound
  | SearchResults "song list"
  | NoMatchingSongs string

definition add_re_match :: "string \<Rightarrow> bool" where
  \<comment> \<open>\<open>re.match(r'^\d+:\d{2}$', duration)\<close>, the check of \<open>add_multiple_songs\<close>\<close>
  "add_re_match d =
     (let minutes = takeWhile isdigit d; rest = dropWhile isdigit d
      in minutes \<noteq> [] \<and>
         (case rest of
            c # a # b # trail \<Rightarrow>
              c = CHR '':'' \<and> isdigit a \<and> isdigit b \<and> (trail = [] \<or> trail = [CHR 0x0A])
          | _ \<Rightarrow> False))"

lemma get_valid_input_shorter:
  "get_valid_input allow_empty ins = Inr (v, rest) \<Longrightarrow> length rest < length ins"
  by (induction ins) (auto simp: Let_def split: if_splits)

function add_multiple_songs_loop ::
  "music_app \<Rightarrow> message list \<Rightarrow> stdin \<Rightarrow> py_error + (music_app \<times> message list \<times> stdin)" where
  \<comment> \<open>the \<open>while True\<close> loop of \<open>add_multiple_songs\<close>; the second argument collects what
      has been printed so far. \<open>Song(...)\<close> may raise, and nothing catches it.\<close>
  "add_multiple_songs_loop self printed ins =
     (case get_valid_input False ins of Inl e \<Rightarrow> Inl e | Inr (nm, ins1) \<Rightarrow>
      if lower nm = ''q'' then Inr (self, printed, ins1)
      else
      case get_valid_input False ins1 of Inl e \<Rightarrow> Inl e | Inr (artists_text, ins2) \<Rightarrow>
      case get_valid_input False ins2 of Inl e \<Rightarrow> Inl e | Inr (alb, ins3) \<Rightarrow>
      case get_valid_input False ins3 of Inl e \<Rightarrow> Inl e | Inr (gen, ins4) \<Rightarrow>
      case get_valid_input False ins4 of Inl e \<Rightarrow> Inl e | Inr (dur, ins5) \<Rightarrow>
      if \<not> add_re_match dur
      then add_multiple_songs_loop self (printed @ [InvalidDurationFormat]) ins5
      else
      case Song_init nm artists_text alb gen dur of
        Inl e \<Rightarrow> Inl e
      | Inr s \<Rightarrow>
          add_multiple_songs_loop (save_data (self\<lparr>songs := songs self @ [s]\<rparr>))
            (printed @ [SongAdded nm]) ins5)"
  by pat_completeness auto
termination
  by (relation "measure (\<lambda>(self, printed, ins). length ins)")
     (auto dest!: get_valid_input_shorter)

declare add_multiple_songs_loop.simps [simp del]

definition add_multiple_songs ::
  "music_app \<Rightarrow> stdin \<Rightarrow> py_error + (music_app \<times> message list \<times> stdin)" where
  "add_multiple_songs self ins = add_multiple_songs_loop self [] ins"

definition remove_song :: "music_app \<Rightarrow> stdin \<Rightarrow> py_error + (music_app \<times> message \<times> stdin)" where
  \<comment> \<open>\<open>self.songs.remove(song)\<close> deletes the first element equal to \<open>song\<close>\<close>
  "remove_song self ins =
     (case get_valid_input False ins of Inl e \<Rightarrow> Inl e | Inr (song_name, ins1) \<Rightarrow>
      case find (\<lambda>s. lower (name s) = lower song_name) (songs self) of
        None \<Rightarrow> Inr (self, SongNotFound song_name, ins1)
      | Some song \<Rightarrow>
          (case confirm_action ins1 of Inl e \<Rightarrow> Inl e | Inr (confirmed, ins2) \<Rightarrow>
             if confirmed then
               let self1 = self\<lparr>undo_stack := undo_stack self @ [(''remove'', song)]\<rparr>;
                   self2 = self1\<lparr>songs := remove1 song (songs self1)\<rparr>;
                   self3 = self2\<lparr>playlists :=
                     map (\<lambda>pl. pl\<lparr>pl_songs :=
                            filter (\<lambda>s. lower (name s) \<noteq> lower song_name) (pl_songs pl)\<rparr>)
                         (playlists self2)\<rparr>
               in Inr (save_data self3, SongRemoved song_name, ins2)
             else Inr (self, ActionCanceled, ins2)))"

definition undo :: "music_app \<Rightarrow> music_app \<times> message" where
  "undo self =
     (if undo_stack self = [] then (self, NothingToUndo)
      else
        let last_action = last (undo_stack self);
            self1 = self\<lparr>undo_stack := butlast (undo_stack self)\<rparr>;
            action_type = fst last_action;
            song = snd last_action
        in if action_type = ''remove''
           then (save_data (self1\<lparr>songs := songs self1 @ [song]\<rparr>), UndoRestored (name song))
           else (self1, Silent))"

definition create_playlist :: "music_app \<Rightarrow> stdin \<Rightarrow> py_error + (music_app \<times> message \<times> stdin)" where
  "create_playlist self ins =
     (case get_valid_input False ins of Inl e \<Rightarrow> Inl e | Inr (nm, ins1) \<Rightarrow>
        Inr (save_data (self\<lparr>playlists := playlists self @ [Playlist_init nm]\<rparr>),
             PlaylistCreated, ins1))"

definition export_line :: "song \<Rightarrow> string" where
  \<comment> \<open>one line of the export, with the line feed that ends it\<close>
  "export_line s =
     name s @ '' by '' @ str_join '', '' (artists s) @ '' ('' @ duration s @ '')'' @ [CHR 0x0A]"

text \<open>
  The file system, as far as \<open>export_playlist\<close> meets it: what \<open>open(path, 'w')\<close> does
  with a path. \<open>None\<close>: the file is opened, empty. \<open>Some e\<close>: \<open>open\<close> raises \<open>e\<close>
  and no file is written, as with \<open>FileNotFoundError\<close> for a path through a directory
  that does not exist (the file name is built from the playlist's name, which may hold a
  slash).
\<close>

type_synonym file_system = "string \<Rightarrow> py_error option"

definition export_playlist ::
  "music_app \<Rightarrow> file_system \<Rightarrow> string option \<Rightarrow> stdin \<Rightarrow>
     py_error + ((string \<times> string) option \<times> message \<times> stdin)" where
  \<comment> \<open>the first component of the result is the file written, as name and content;
      \<open>f.write\<close> appends to the content. Nothing catches what \<open>open\<close> raises.\<close>
  "export_playlist self fs playlist_name_arg ins =
     (case (case playlist_name_arg of
              None \<Rightarrow> get_valid_input False ins
            | Some given \<Rightarrow> Inr (given, ins)) of
        Inl e \<Rightarrow> Inl e
      | Inr (playlist_name, ins1) \<Rightarrow>
      case find (\<lambda>p. lower (pl_name p) = lower playlist_name) (playlists self) of
        None \<Rightarrow> Inr (None, PlaylistNotFound, ins1)
      | Some pl \<Rightarrow>
          let file_name = str_replace (CHR '' '') (CHR ''_'') playlist_name @ ''.txt''
          in (case fs file_name of
                Some e \<Rightarrow> Inl e
              | None \<Rightarrow>
                  let f0 = [] @ (''Playlist: '' @ pl_name pl @ [CHR 0x0A]);
                      f1 = (if pl_songs pl \<noteq> []
                            then foldl (\<lambda>f s. f @ export_line s)
                                   (f0 @ (''Songs:'' @ [CHR 0x0A])) (pl_songs pl)
                            else f0)
                  in Inr (Some (file_name, f1), PlaylistExported playlist_name file_name, ins1)))"

fun update_first :: "('a \<Rightarrow> bool) \<Rightarrow> ('a \<Rightarrow> 'a) \<Rightarrow> 'a list \<Rightarrow> 'a list" where
  \<comment> \<open>changing in place the object that \<open>next(...)\<close> found: the first element that
      satisfies the test\<close>
  "update_first P f [] = []"
| "update_first P f (x # xs) = (if P x then f x # xs else x # update_first P f xs)"

definition add_song_to_playlist ::
  "music_app \<Rightarrow> stdin \<Rightarrow> py_error + (music_app \<times> message \<times> stdin)" where
  "add_song_to_playlist self ins =
     (case get_valid_input False ins of Inl e \<Rightarrow> Inl e | Inr (song_name, ins1) \<Rightarrow>
      case get_valid_input False ins1 of Inl e \<Rightarrow> Inl e | Inr (playlist_name, ins2) \<Rightarrow>
      case (find (\<lambda>s. lower (name s) = lower song_name) (songs self),
            find (\<lambda>p. lower (pl_name p) = lower playlist_name) (playlists self)) of
        (Some song, Some pl) \<Rightarrow>
          Inr (save_data (self\<lparr>playlists :=
                 update_first (\<lambda>p. lower (pl_name p) = lower playlist_name)
                   (\<lambda>p. Playlist_add_song p song) (playlists self)\<rparr>),
               AddedToPlaylist, ins2)
      | _ \<Rightarrow> Inr (self, SongOrPlaylistNotFound, ins2))"

definition search_songs :: "music_app \<Rightarrow> stdin \<Rightarrow> py_error + (message \<times> stdin)" where
  "search_songs self ins =
     (case get_valid_input False ins of Inl e \<Rightarrow> Inl e | Inr (search_term, ins1) \<Rightarrow>
        let results = filter (\<lambda>s. str_contains (lower (name s)) (lower search_term)) (songs self)
        in if results \<noteq> [] then Inr (SearchResults results, ins1)
           else Inr (NoMatchingSongs search_term, ins1))"

subsection \<open>States of the library\<close>

definition lib_inv :: "music_app \<Rightarrow> bool" where
  \<comment> \<open>every song of every playlist has a song of the same lower-cased name in the
      library\<close>
  "lib_inv self =
     list_all (\<lambda>pl. list_all (\<lambda>s. list_ex (\<lambda>t. lower (name t) = lower (name s)) (songs self))
                             (pl_songs pl))
              (playlists self)"

text \<open>
  The states a running application can be in: the one its constructor leaves, and every
  state one of the menu's operations leaves when it returns. Exporting and searching
  change nothing.
\<close>

inductive reachable :: "music_app \<Rightarrow> bool" where
  r_init: "MusicApp_init stored = (self, r) \<Longrightarrow> \<nexists>e. r = Raised e \<Longrightarrow> reachable self"
| r_add: "reachable self \<Longrightarrow> add_multiple_songs self ins = Inr (self', printed, rest) \<Longrightarrow>
      reachable self'"
| r_remove: "reachable self \<Longrightarrow> remove_song self ins = Inr (self', m, rest) \<Longrightarrow> reachable self'"
| r_undo: "reachable self \<Longrightarrow> undo self = (self', m) \<Longrightarrow> reachable self'"
| r_create: "reachable self \<Longrightarrow> create_playlist self ins = Inr (self', m, rest) \<Longrightarrow>
      reachable self'"
| r_add_to_playlist: "reachable self \<Longrightarrow> add_song_to_playlist self ins = Inr (self', m, rest) \<Longrightarrow>
      reachable self'"

subsection \<open>A small library\<close>

text \<open>
  The song and the playlist of the end-to-end scenario: the library holds the song
  \<open>Alpha\<close>, and the playlist \<open>P\<close> holds it too.
\<close>

definition alpha :: song where
  "alpha = \<lparr>name = ''Alpha'', artists = [''A1'', ''A2''], album = ''Alb'', genre = ''Rock'',
            duration = ''3:30''\<rparr>"

definition example_document :: document where
  "example_document =
     \<lparr>doc_songs = Some [Song_to_dict alpha],
      doc_playlists = Some [Playlist_to_dict \<lparr>pl_name = ''P'', pl_songs = [alpha]\<rparr>]\<rparr>"

definition example_app :: music_app where
  "example_app =
     \<lparr>songs = [alpha], playlists = [\<lparr>pl_name = ''P'', pl_songs = [alpha]\<rparr>], undo_stack = [],
      data_file = Some (Document example_document)\<rparr>"

definition example_removed :: music_app where
  \<comment> \<open>the library once \<open>Alpha\<close> has been removed\<close>
  "example_removed =
     \<lparr>songs = [], playlists = [\<lparr>pl_name = ''P'', pl_songs = []\<rparr>],
      undo_stack = [(''remove'', alpha)],
      data_file = Some (Document \<lparr>doc_songs = Some [],
        doc_playlists = Some [\<lparr>pd_name = Some ''P'', pd_songs = Some []\<rparr>]\<rparr>)\<rparr>"

text \<open>A library to export from: an empty playlist, and one that holds a song twice.\<close>

definition two_songs :: playlist where
  "two_songs = \<lparr>pl_name = ''Road Trip'', pl_songs =
      [alpha, \<lparr>name = ''Beta'', artists = [''B''], album = [], genre = ''Pop'', duration = ''4:10''\<rparr>, alpha]\<rparr>"

definition export_app :: music_app where
  "export_app = \<lparr>songs = [alpha], playlists = [\<lparr>pl_name = ''Empty Playlist'', pl_songs = []\<rparr>, two_songs],
      undo_stack = [], data_file = None\<rparr>"



text \<open>
  Two file systems: one where every path can be opened for writing, and one whose current
  directory has no subdirectory \<open>AC\<close>, so that the path \<open>AC/DC.txt\<close> cannot. And a
  library with a playlist of that name.
\<close>

definition writable :: file_system where
  "writable path = None"

definition no_directory_AC :: file_system where
  "no_directory_AC path = (if path = ''AC/DC.txt'' then Some FileNotFoundError else None)"

definition slash_app :: music_app where
  "slash_app =
     \<lparr>songs = [alpha], playlists = [\<lparr>pl_name = ''AC/DC'', pl_songs = [alpha]\<rparr>], undo_stack = [],
      data_file = None\<rparr>"

section \<open>Facts about the string functions\<close>

lemma str_split_nonempty: "str_split sep s \<noteq> []"
  by (induction s) (auto split: list.splits)

lemma str_split_no_sep: "p \<in> set (str_split sep s) \<Longrightarrow> sep \<notin> set p"
  by (induction s arbitrary: p) (auto split: list.splits if_splits)

lemma str_split_single: "sep \<notin> set a \<Longrightarrow> str_split sep a = [a]"
  by (induction a) auto

lemma str_split_append: "sep \<notin> set a \<Longrightarrow> str_split sep (a @ sep # r) = a # str_split sep r"
  by (induction a) auto

lemma set_strip_subset: "set (strip s) \<subseteq> set s"
  by (auto simp: strip_def dest!: set_dropWhileD)

lemma strip_space_Cons: "isspace c \<Longrightarrow> strip (c # s) = strip s"
  by (simp add: strip_def)

lemma last_dropWhile: "dropWhile P xs \<noteq> [] \<Longrightarrow> last (dropWhile P xs) = last xs"
  by (induction xs) auto

lemma dropWhile_rev_trim:
  assumes "t = [] \<or> \<not> P (hd t)"
  shows "dropWhile P (rev (dropWhile P (rev t))) = rev (dropWhile P (rev t))"
proof (cases "dropWhile P (rev t) = []")
  case True
  show ?thesis unfolding True by simp
next
  case False
  then have "t \<noteq> []" by auto
  have "hd (rev (dropWhile P (rev t))) = last (dropWhile P (rev t))"
    using False by (simp add: hd_rev)
  also have "\<dots> = last (rev t)" using False by (rule last_dropWhile)
  also have "\<dots> = hd t" using \<open>t \<noteq> []\<close> by (simp add: last_rev)
  finally have "\<not> P (hd (rev (dropWhile P (rev t))))"
    using assms \<open>t \<noteq> []\<close> by simp
  then show ?thesis
    using False by (cases "rev (dropWhile P (rev t))") auto
qed

lemma strip_idem: "strip (strip s) = strip s"
proof -
  have t: "dropWhile isspace s = [] \<or> \<not> isspace (hd (dropWhile isspace s))"
    using hd_dropWhile [of isspace s] by blast
  show ?thesis
    unfolding strip_def
    using dropWhile_rev_trim [of "dropWhile isspace s" isspace, OF t]
    by (simp add: dropWhile_idem)
qed

text \<open>
  Joining a list of trimmed, comma-free pieces with \<open>", "\<close> and splitting the text at the
  commas again, trimming each piece, gives the list back.
\<close>

lemma split_join_artists:
  assumes "\<forall>a \<in> set as. strip a = a \<and> CHR '','' \<notin> set a" and "as \<noteq> []"
  shows "map strip (str_split (CHR '','') (str_join '', '' as)) = as"
  using assms
proof (induction "'', ''" as rule: str_join.induct)
  case 1
  then show ?case by simp
next
  case (2 x)
  then show ?case by (simp add: str_split_single)
next
  case (3 x y ys)
  have ne: "str_split (CHR '','') (str_join '', '' (y # ys)) \<noteq> []"
    by (rule str_split_nonempty)
  have "str_join '', '' (x # y # ys) = x @ CHR '','' # CHR '' '' # str_join '', '' (y # ys)"
    by simp
  moreover have "CHR '','' \<notin> set x" using 3 by simp
  ultimately have "str_split (CHR '','') (str_join '', '' (x # y # ys))
      = x # str_split (CHR '','') (CHR '' '' # str_join '', '' (y # ys))"
    using str_split_append [of "CHR '',''" x "CHR '' '' # str_join '', '' (y # ys)"]
    by simp
  moreover have "map strip (str_split (CHR '','') (CHR '' '' # str_join '', '' (y # ys)))
      = map strip (str_split (CHR '','') (str_join '', '' (y # ys)))"
    using ne by (cases "str_split (CHR '','') (str_join '', '' (y # ys))")
      (auto simp: strip_space_Cons isspace_def)
  ultimately show ?case using 3 by simp
qed

lemma artists_of_split:
  "\<forall>a \<in> set (map strip (str_split (CHR '','') t)). strip a = a \<and> CHR '','' \<notin> set a"
  using str_split_no_sep [of _ "CHR '',''" t] set_strip_subset
  by (auto simp: strip_idem)

section \<open>Song construction and its record\<close>

text \<open>
  The strings the duration check accepts: one or more digits, a colon, a digit from 0 to
  5 and one more digit, and then the end of the string or one line feed that ends it.
\<close>

lemma duration_re_match_iff:
  "duration_re_match d \<longleftrightarrow>
     (\<exists>m a b e. d = m @ [CHR '':'', a, b] @ e \<and> m \<noteq> [] \<and> list_all isdigit m \<and>
        a \<in> set ''012345'' \<and> isdigit b \<and> (e = [] \<or> e = [CHR 0x0A]))"
proof
  assume h: "duration_re_match d"
  define m where "m = takeWhile isdigit d"
  define r where "r = dropWhile isdigit d"
  have d: "d = m @ r" by (simp add: m_def r_def)
  have dm: "list_all isdigit m" by (simp add: m_def list_all_iff) (metis set_takeWhileD)
  from h obtain a b e where "r = CHR '':'' # a # b # e" "m \<noteq> []" "a \<in> set ''012345''"
      "isdigit b" "e = [] \<or> e = [CHR 0x0A]"
    unfolding duration_re_match_def Let_def m_def [symmetric] r_def [symmetric]
    by (auto split: list.splits)
  with d dm show "\<exists>m a b e. d = m @ [CHR '':'', a, b] @ e \<and> m \<noteq> [] \<and> list_all isdigit m \<and>
        a \<in> set ''012345'' \<and> isdigit b \<and> (e = [] \<or> e = [CHR 0x0A])"
    by auto
next
  assume "\<exists>m a b e. d = m @ [CHR '':'', a, b] @ e \<and> m \<noteq> [] \<and> list_all isdigit m \<and>
        a \<in> set ''012345'' \<and> isdigit b \<and> (e = [] \<or> e = [CHR 0x0A])"
  then obtain m a b e where d: "d = m @ [CHR '':'', a, b] @ e"
     and m: "m \<noteq> []" "list_all isdigit m"
     and r: "a \<in> set ''012345''" "isdigit b" "e = [] \<or> e = [CHR 0x0A]" by blast
  have c: "\<not> isdigit (CHR '':'')" by (simp add: isdigit_def)
  have t: "takeWhile isdigit d = m"
    using m c unfolding d by (simp add: list_all_iff takeWhile_append2)
  have dr: "dropWhile isdigit d = CHR '':'' # a # b # e"
    using m c unfolding d by (simp add: list_all_iff dropWhile_append2)
  show "duration_re_match d"
    unfolding duration_re_match_def Let_def t dr using m r by simp
qed

text \<open>
  C3. With a non-empty name and a duration the pattern \<open>^\d+:[0-5]\d$\<close> matches,
  \<open>Song(...)\<close> succeeds. \<open>Song.from_dict\<close> of the song's \<open>to_dict\<close> is the constructor
  called again on the song's fields, with the artists joined by \<open>", "\<close>; it succeeds and
  returns a song equal to the original in name, artist list, album, genre and duration.
  That \<open>Song.from_dict\<close> goes through the constructor's validation holds for every
  record with the five keys, whatever its values: its result is the constructor's result
  on the name, the joined artists, the album, the genre and the duration, so a record
  with an empty name or a duration the pattern does not match is refused as the
  constructor refuses it.
\<close>

theorem song_roundtrip:
  assumes "nm \<noteq> []" and "duration_re_match dur"
  shows "(\<exists>s. Song_init nm artists_text alb gen dur = Inr s
           \<and> Song_from_dict (Song_to_dict s)
               = Song_init (name s) (str_join '', '' (artists s)) (album s) (genre s) (duration s)
           \<and> Song_from_dict (Song_to_dict s) = Inr s)
       \<and> Song_from_dict \<lparr>sd_name = Some n, sd_artists = Some ars, sd_album = Some a,
            sd_genre = Some g, sd_duration = Some d\<rparr>
           = Song_init n (str_join '', '' ars) a g d"
proof
  define s where "s = \<lparr>name = nm, artists = map strip (str_split (CHR '','') artists_text),
                        album = alb, genre = gen, duration = dur\<rparr>"
  have mk: "Song_init nm artists_text alb gen dur = Inr s"
    using assms by (simp add: Song_init_def s_def)
  have fd: "Song_from_dict (Song_to_dict s)
      = Song_init (name s) (str_join '', '' (artists s)) (album s) (genre s) (duration s)"
    by (simp add: Song_from_dict_def Song_to_dict_def getitem_def)
  have ar: "map strip (str_split (CHR '','') (str_join '', '' (artists s))) = artists s"
    unfolding s_def
    using artists_of_split [of artists_text] str_split_nonempty [of "CHR '',''" artists_text]
    by (simp add: split_join_artists)
  have "Song_init (name s) (str_join '', '' (artists s)) (album s) (genre s) (duration s) = Inr s"
    unfolding Song_init_def ar using assms by (simp add: s_def)
  with mk fd show "\<exists>s. Song_init nm artists_text alb gen dur = Inr s
           \<and> Song_from_dict (Song_to_dict s)
               = Song_init (name s) (str_join '', '' (artists s)) (album s) (genre s) (duration s)
           \<and> Song_from_dict (Song_to_dict s) = Inr s"
    by simp
next
  show "Song_from_dict \<lparr>sd_name = Some n, sd_artists = Some ars, sd_album = Some a,
            sd_genre = Some g, sd_duration = Some d\<rparr>
           = Song_init n (str_join '', '' ars) a g d"
    by (simp add: Song_from_dict_def getitem_def)
qed

theorem song_roundtrip_witness:
  "''Alpha'' \<noteq> [] \<and> duration_re_match ''3:30''
   \<and> Song_init ''Alpha'' ''A1,  A2 ,'' ''Alb'' ''Rock'' ''3:30''
       = Inr \<lparr>name = ''Alpha'', artists = [''A1'', ''A2'', []], album = ''Alb'', genre = ''Rock'',
              duration = ''3:30''\<rparr>
   \<and> Song_from_dict (Song_to_dict \<lparr>name = ''Alpha'', artists = [''A1'', ''A2'', []], album = ''Alb'',
         genre = ''Rock'', duration = ''3:30''\<rparr>)
       = Inr \<lparr>name = ''Alpha'', artists = [''A1'', ''A2'', []], album = ''Alb'', genre = ''Rock'',
              duration = ''3:30''\<rparr>
   \<and> Song_from_dict \<lparr>sd_name = Some ''Alpha'', sd_artists = Some [''A1'', ''A2''],
         sd_album = Some ''Alb'', sd_genre = Some ''Rock'', sd_duration = Some ''5:99''\<rparr>
       = Inl (ValueError (invalid_duration_message ''5:99''))
   \<and> Song_from_dict \<lparr>sd_name = Some [], sd_artists = Some [''A1'', ''A2''],
         sd_album = Some ''Alb'', sd_genre = Some ''Rock'', sd_duration = Some ''3:30''\<rparr>
       = Inl (ValueError ''Song name cannot be empty.'')"
proof -
  have h: "''Alpha'' \<noteq> []" "duration_re_match ''3:30''"
    by (simp_all add: duration_re_match_def isdigit_def)
  note t = song_roundtrip [OF h]
  from t [of "''A1,  A2 ,''" "''Alb''" "''Rock''"] obtain s
    where mk: "Song_init ''Alpha'' ''A1,  A2 ,'' ''Alb'' ''Rock'' ''3:30'' = Inr s"
      and rt: "Song_from_dict (Song_to_dict s) = Inr s"
    by blast
  have "Song_init ''Alpha'' ''A1,  A2 ,'' ''Alb'' ''Rock'' ''3:30''
       = Inr \<lparr>name = ''Alpha'', artists = [''A1'', ''A2'', []], album = ''Alb'', genre = ''Rock'',
              duration = ''3:30''\<rparr>"
    using h by (simp add: Song_init_def strip_def isspace_def)
  with mk have s: "s = \<lparr>name = ''Alpha'', artists = [''A1'', ''A2'', []], album = ''Alb'',
      genre = ''Rock'', duration = ''3:30''\<rparr>" by simp
  have bad_duration: "Song_from_dict \<lparr>sd_name = Some ''Alpha'', sd_artists = Some [''A1'', ''A2''],
         sd_album = Some ''Alb'', sd_genre = Some ''Rock'', sd_duration = Some ''5:99''\<rparr>
       = Song_init ''Alpha'' (str_join '', '' [''A1'', ''A2'']) ''Alb'' ''Rock'' ''5:99''"
    using t [where n = "''Alpha''" and d = "''5:99''"] by blast
  have bad_name: "Song_from_dict \<lparr>sd_name = Some [], sd_artists = Some [''A1'', ''A2''],
         sd_album = Some ''Alb'', sd_genre = Some ''Rock'', sd_duration = Some ''3:30''\<rparr>
       = Song_init [] (str_join '', '' [''A1'', ''A2'']) ''Alb'' ''Rock'' ''3:30''"
    using t [where n = "[]" and d = "''3:30''"] by blast
  have n5: "\<not> duration_re_match ''5:99''" by (simp add: duration_re_match_def isdigit_def)
  show ?thesis
    using h mk rt bad_duration bad_name n5 unfolding s
    by (simp add: Song_init_def)
qed

text \<open>
  C4. With a non-empty name, a duration that the pattern \<open>^\d+:[0-5]\d$\<close> does not match
  makes \<open>Song(...)\<close> raise \<open>ValueError\<close>, so no song exists; a duration that it matches
  passes the check and the song is built with it. \<open>"5:99"\<close>, \<open>"abc"\<close> and \<open>""\<close> do not
  match. What \<open>re.match\<close> takes as a match of the pattern is spelled out in the last
  part: digits, a colon, a digit up to 5, a digit, and then the end of the string or the
  one line feed that \<open>$\<close> allows before it.
\<close>

theorem duration_validation:
  "(nm \<noteq> [] \<and> \<not> duration_re_match dur \<longrightarrow>
      Song_init nm artists_text alb gen dur = Inl (ValueError (invalid_duration_message dur)))
   \<and> (nm \<noteq> [] \<and> duration_re_match dur \<longrightarrow>
      (\<exists>s. Song_init nm artists_text alb gen dur = Inr s \<and> duration s = dur))
   \<and> \<not> duration_re_match ''5:99'' \<and> \<not> duration_re_match ''abc'' \<and> \<not> duration_re_match []
   \<and> (duration_re_match dur \<longleftrightarrow>
        (\<exists>m a b e. dur = m @ [CHR '':'', a, b] @ e \<and> m \<noteq> [] \<and> list_all isdigit m \<and>
           a \<in> set ''012345'' \<and> isdigit b \<and> (e = [] \<or> e = [CHR 0x0A])))"
proof -
  have "\<not> duration_re_match ''5:99''" "\<not> duration_re_match ''abc''" "\<not> duration_re_match []"
    by (simp_all add: duration_re_match_def isdigit_def)
  then show ?thesis
    using duration_re_match_iff [of dur] by (simp add: Song_init_def)
qed

theorem duration_validation_witness:
  "''Invalid Duration Song'' \<noteq> [] \<and> \<not> duration_re_match ''5:99''
   \<and> Song_init ''Invalid Duration Song'' ''Artist X'' ''Album X'' ''Pop'' ''5:99''
       = Inl (ValueError (invalid_duration_message ''5:99''))
   \<and> duration_re_match ''4:10''
   \<and> (\<exists>s. Song_init ''Invalid Duration Song'' ''Artist X'' ''Album X'' ''Pop'' ''4:10'' = Inr s
           \<and> duration s = ''4:10'')"
  using duration_validation [where nm = "''Invalid Duration Song''" and dur = "''5:99''"
      and artists_text = "''Artist X''" and alb = "''Album X''" and gen = "''Pop''"]
    duration_validation [where nm = "''Invalid Duration Song''" and dur = "''4:10''"
      and artists_text = "''Artist X''" and alb = "''Album X''" and gen = "''Pop''"]
  by (simp add: duration_re_match_def isdigit_def)

text \<open>
  C5, as the claim states it, fails: \<open>Song.__init__\<close> tests \<open>not name\<close> on the name as
  given, without trimming, so the name \<open>" "\<close> (empty once trimmed) is accepted.
\<close>

theorem whitespace_name_counterexample:
  "strip '' '' = [] \<and>
   Song_init '' '' ''Artist X'' ''Album X'' ''Pop'' ''3:30''
     = Inr \<lparr>name = '' '', artists = [''Artist X''], album = ''Album X'', genre = ''Pop'',
            duration = ''3:30''\<rparr>"
  by (simp add: Song_init_def duration_re_match_def isdigit_def strip_def isspace_def)

text \<open>
  C5, amended. With the empty string as name, \<open>Song(...)\<close> raises \<open>ValueError\<close> whatever
  the other fields are, and no song exists. Any other name, a name of blanks included,
  is kept as given when the duration is valid. (The prompts trim and refuse an empty
  entry before a name reaches the constructor: see \<open>get_valid_input\<close>.)
\<close>

theorem empty_name_rejected:
  "Song_init [] artists_text alb gen dur = Inl (ValueError ''Song name cannot be empty.'')
   \<and> (nm \<noteq> [] \<and> duration_re_match dur \<longrightarrow>
        (\<exists>s. Song_init nm artists_text alb gen dur = Inr s \<and> name s = nm))"
  by (simp add: Song_init_def)

theorem empty_name_rejected_witness:
  "Song_init [] ''Artist X'' ''Album X'' ''Pop'' ''3:30''
     = Inl (ValueError ''Song name cannot be empty.'')
   \<and> '' '' \<noteq> [] \<and> duration_re_match ''3:30''
   \<and> (\<exists>s. Song_init '' '' ''Artist X'' ''Album X'' ''Pop'' ''3:30'' = Inr s \<and> name s = '' '')"
  using empty_name_rejected [where nm = "'' ''" and dur = "''3:30''"
      and artists_text = "''Artist X''" and alb = "''Album X''" and gen = "''Pop''"]
  by (simp add: duration_re_match_def isdigit_def)

section \<open>Finding the first match in a list\<close>

lemma find_first:
  "list_all (\<lambda>y. \<not> P y) pre \<Longrightarrow> P x \<Longrightarrow> find P (pre @ x # post) = Some x"
  by (induction pre) auto


lemma find_None_list_ex: "find P xs = None \<longleftrightarrow> \<not> list_ex P xs"
  by (induction xs) auto

lemma remove1_first:
  "list_all (\<lambda>y. \<not> P y) pre \<Longrightarrow> P x \<Longrightarrow> remove1 x (pre @ x # post) = pre @ post"
  by (induction pre) auto

lemma update_first_split:
  "list_all (\<lambda>y. \<not> P y) pre \<Longrightarrow> P x \<Longrightarrow> update_first P f (pre @ x # post) = pre @ f x # post"
  by (induction pre) auto

section \<open>The small library\<close>

lemma song_from_dict_alpha: "Song_from_dict (Song_to_dict alpha) = Inr alpha"
  by (simp add: alpha_def Song_from_dict_def Song_to_dict_def getitem_def Song_init_def
      duration_re_match_def isdigit_def strip_def isspace_def)

lemma init_example: "MusicApp_init (Some (Document example_document)) = (example_app, Loaded)"
  by (simp add: MusicApp_init_def unloaded_def load_data_def example_document_def example_app_def getitem_def
      song_from_dict_alpha Playlist_from_dict_def Playlist_to_dict_def Playlist_init_def
      Playlist_add_song_def)

lemma reachable_example: "reachable example_app"
  by (rule r_init [OF init_example]) simp

lemma remove_alpha:
  "remove_song example_app [''ALPHA'', ''y''] = Inr (example_removed, SongRemoved ''ALPHA'', [])"
  by (simp add: remove_song_def example_app_def example_removed_def alpha_def lower_def
      lower_char_def strip_def isspace_def save_data_def Playlist_to_dict_def)

lemma reachable_removed: "reachable example_removed"
  by (rule r_remove [OF reachable_example remove_alpha])

section \<open>Removing a song\<close>

text \<open>
  C1, as the claim states it, fails: when a song of that name is found,
  \<open>remove_song\<close> asks for a confirmation first, and on the answer \<open>n\<close> it pushes no
  undo entry and removes nothing.
\<close>

theorem remove_song_declined_counterexample:
  "list_ex (\<lambda>s. lower (name s) = lower ''ALPHA'') (songs example_app)
   \<and> remove_song example_app [''ALPHA'', ''n''] = Inr (example_app, ActionCanceled, [])"
  by (simp add: remove_song_def example_app_def alpha_def lower_def lower_char_def strip_def
      isspace_def)

text \<open>
  C1, amended. For every library state and every name entered: if no song's name matches
  it case-insensitively, \<open>remove_song\<close> reports not-found and changes nothing. If one
  does and the confirmation is declined, it reports the cancellation and changes nothing.
  If one does and the removal is confirmed, it takes the first matching song, pushes the
  undo entry \<open>('remove', song)\<close>, removes that one song from the songs list, removes every
  entry whose name matches from every playlist, saves, and reports the removal.
\<close>

theorem remove_song_spec:
  assumes "get_valid_input False ins = Inr (song_name, rest)"
  shows "(\<not> list_ex (\<lambda>s. lower (name s) = lower song_name) (songs self) \<longrightarrow>
            remove_song self ins = Inr (self, SongNotFound song_name, rest))
       \<and> (\<forall>rest'. list_ex (\<lambda>s. lower (name s) = lower song_name) (songs self)
              \<and> confirm_action rest = Inr (False, rest') \<longrightarrow>
            remove_song self ins = Inr (self, ActionCanceled, rest'))
       \<and> (\<forall>pre song post rest'.
              songs self = pre @ song # post
              \<and> list_all (\<lambda>s. lower (name s) \<noteq> lower song_name) pre
              \<and> lower (name song) = lower song_name
              \<and> confirm_action rest = Inr (True, rest') \<longrightarrow>
            remove_song self ins =
              Inr (save_data (self\<lparr>undo_stack := undo_stack self @ [(''remove'', song)],
                     songs := pre @ post,
                     playlists := map (\<lambda>pl. pl\<lparr>pl_songs :=
                         filter (\<lambda>s. lower (name s) \<noteq> lower song_name) (pl_songs pl)\<rparr>)
                       (playlists self)\<rparr>),
                   SongRemoved song_name, rest'))"
proof (intro conjI allI impI)
  assume "\<not> list_ex (\<lambda>s. lower (name s) = lower song_name) (songs self)"
  then have "find (\<lambda>s. lower (name s) = lower song_name) (songs self) = None"
    by (simp add: find_None_list_ex)
  then show "remove_song self ins = Inr (self, SongNotFound song_name, rest)"
    using assms by (simp add: remove_song_def)
next
  fix rest'
  assume h: "list_ex (\<lambda>s. lower (name s) = lower song_name) (songs self)
      \<and> confirm_action rest = Inr (False, rest')"
  then obtain song where "find (\<lambda>s. lower (name s) = lower song_name) (songs self) = Some song"
    using find_None_list_ex [of "\<lambda>s. lower (name s) = lower song_name" "songs self"] by auto
  then show "remove_song self ins = Inr (self, ActionCanceled, rest')"
    using assms h by (simp add: remove_song_def)
next
  fix pre song post rest'
  assume h: "songs self = pre @ song # post
      \<and> list_all (\<lambda>s. lower (name s) \<noteq> lower song_name) pre
      \<and> lower (name song) = lower song_name
      \<and> confirm_action rest = Inr (True, rest')"
  then have f: "find (\<lambda>s. lower (name s) = lower song_name) (songs self) = Some song"
    using find_first [of "\<lambda>s. lower (name s) = lower song_name" pre song post] by simp
  have r: "remove1 song (songs self) = pre @ post"
    using h remove1_first [of "\<lambda>s. lower (name s) = lower song_name" pre song post] by simp
  show "remove_song self ins =
              Inr (save_data (self\<lparr>undo_stack := undo_stack self @ [(''remove'', song)],
                     songs := pre @ post,
                     playlists := map (\<lambda>pl. pl\<lparr>pl_songs :=
                         filter (\<lambda>s. lower (name s) \<noteq> lower song_name) (pl_songs pl)\<rparr>)
                       (playlists self)\<rparr>),
                   SongRemoved song_name, rest')"
    using assms h f r by (simp add: remove_song_def)
qed

theorem remove_song_spec_witness:
  "get_valid_input False [''ALPHA'', ''y''] = Inr (''ALPHA'', [''y''])
   \<and> songs example_app = [] @ alpha # []
   \<and> lower (name alpha) = lower ''ALPHA''
   \<and> confirm_action [''y''] = Inr (True, [])
   \<and> remove_song example_app [''ALPHA'', ''y''] = Inr (example_removed, SongRemoved ''ALPHA'', [])
   \<and> list_ex (\<lambda>s. lower (name s) = lower ''ALPHA'') (songs example_app)
   \<and> get_valid_input False [''ALPHA'', ''N''] = Inr (''ALPHA'', [''N''])
   \<and> confirm_action [''N''] = Inr (False, [])
   \<and> remove_song example_app [''ALPHA'', ''N''] = Inr (example_app, ActionCanceled, [])
   \<and> get_valid_input False ['' Beta ''] = Inr (''Beta'', [])
   \<and> \<not> list_ex (\<lambda>s. lower (name s) = lower ''Beta'') (songs example_app)
   \<and> remove_song example_app ['' Beta ''] = Inr (example_app, SongNotFound ''Beta'', [])"
proof -
  have g1: "get_valid_input False [''ALPHA'', ''y''] = Inr (''ALPHA'', [''y''])"
    and g2: "get_valid_input False [''ALPHA'', ''N''] = Inr (''ALPHA'', [''N''])"
    and g3: "get_valid_input False ['' Beta ''] = Inr (''Beta'', [])"
    by (simp_all add: strip_def isspace_def)
  have c1: "confirm_action [''y''] = Inr (True, [])"
    and c2: "confirm_action [''N''] = Inr (False, [])"
    by (simp_all add: lower_def lower_char_def)
  have s1: "songs example_app = [] @ alpha # []"
    by (simp add: example_app_def)
  have m1: "lower (name alpha) = lower ''ALPHA''"
    by (simp add: alpha_def lower_def lower_char_def)
  have e1: "list_ex (\<lambda>s. lower (name s) = lower ''ALPHA'') (songs example_app)"
    using m1 by (simp add: example_app_def)
  have n3: "\<not> list_ex (\<lambda>s. lower (name s) = lower ''Beta'') (songs example_app)"
    by (simp add: example_app_def alpha_def lower_def lower_char_def)
  have "remove_song example_app [''ALPHA'', ''y''] =
      Inr (save_data (example_app\<lparr>undo_stack := undo_stack example_app @ [(''remove'', alpha)],
             songs := [] @ [],
             playlists := map (\<lambda>pl. pl\<lparr>pl_songs :=
                 filter (\<lambda>s. lower (name s) \<noteq> lower ''ALPHA'') (pl_songs pl)\<rparr>)
               (playlists example_app)\<rparr>),
           SongRemoved ''ALPHA'', [])"
  proof -
    have "list_all (\<lambda>s. lower (name s) \<noteq> lower ''ALPHA'') []" by simp
    with remove_song_spec [OF g1, of example_app] s1 m1 c1 show ?thesis by blast
  qed
  then have r1: "remove_song example_app [''ALPHA'', ''y'']
      = Inr (example_removed, SongRemoved ''ALPHA'', [])"
    by (simp add: example_app_def example_removed_def alpha_def lower_def lower_char_def
        save_data_def Playlist_to_dict_def)
  have r2: "remove_song example_app [''ALPHA'', ''N''] = Inr (example_app, ActionCanceled, [])"
    using remove_song_spec [OF g2, of example_app] e1 c2 by blast
  have r3: "remove_song example_app ['' Beta ''] = Inr (example_app, SongNotFound ''Beta'', [])"
    using remove_song_spec [OF g3, of example_app] n3 by blast
  show ?thesis
    using g1 g2 g3 c1 c2 s1 m1 e1 n3 r1 r2 r3 by blast
qed

section \<open>What the operations leave unchanged\<close>

lemma save_data_simps [simp]:
  "songs (save_data self) = songs self"
  "playlists (save_data self) = playlists self"
  "undo_stack (save_data self) = undo_stack self"
  by (simp_all add: save_data_def)

lemma add_loop_frame:
  "add_multiple_songs_loop self printed ins = Inr (self', printed', rest) \<Longrightarrow>
     playlists self' = playlists self \<and> undo_stack self' = undo_stack self
     \<and> (\<exists>added. songs self' = songs self @ added)"
proof (induction self printed ins rule: add_multiple_songs_loop.induct)
  case (1 self printed ins)
  note step = "1.prems" [unfolded add_multiple_songs_loop.simps [of self printed ins]]
  show ?case
  proof (cases "get_valid_input False ins")
    case (Inl e)
    with step show ?thesis by simp
  next
    case (Inr a)
    show ?thesis
      using step Inr "1.IH" [OF Inr]
      by (fastforce split: sum.splits prod.splits if_splits)
  qed
qed

lemma load_data_undo_stack: "undo_stack (fst (load_data self)) = undo_stack self"
  by (auto simp: load_data_def except_handler_def Let_def
      split: option.splits file_content.splits sum.splits py_error.splits)

lemma remove_song_undo_stack:
  "remove_song self ins = Inr (self', m, rest) \<Longrightarrow>
     undo_stack self' = undo_stack self \<or> (\<exists>s. undo_stack self' = undo_stack self @ [(''remove'', s)])"
  by (auto simp: remove_song_def save_data_def Let_def split: sum.splits prod.splits option.splits if_splits)

lemma undo_undo_stack:
  "undo_stack (fst (undo self)) = undo_stack self \<or> undo_stack (fst (undo self)) = butlast (undo_stack self)"
  by (auto simp: undo_def save_data_def Let_def)

lemma create_playlist_undo_stack:
  "create_playlist self ins = Inr (self', m, rest) \<Longrightarrow> undo_stack self' = undo_stack self"
  by (auto simp: create_playlist_def save_data_def split: sum.splits prod.splits)

lemma add_song_to_playlist_undo_stack:
  "add_song_to_playlist self ins = Inr (self', m, rest) \<Longrightarrow> undo_stack self' = undo_stack self"
  by (auto simp: add_song_to_playlist_def save_data_def split: sum.splits prod.splits option.splits)

lemma reachable_undo_kinds:
  "reachable self \<Longrightarrow> list_all (\<lambda>e. fst e = ''remove'') (undo_stack self)"
proof (induction rule: reachable.induct)
  case (r_init stored self r)
  then show ?case
    using load_data_undo_stack [of "unloaded stored"]
    by (simp add: MusicApp_init_def unloaded_def)
next
  case (r_add self ins self' printed rest)
  then show ?case by (auto simp: add_multiple_songs_def dest: add_loop_frame)
next
  case (r_remove self ins self' m rest)
  then show ?case by (auto dest: remove_song_undo_stack)
next
  case (r_undo self self' m)
  then show ?case
    using undo_undo_stack [of self] in_set_butlastD [of _ "undo_stack self"]
    by (fastforce simp: list_all_iff)
next
  case (r_create self ins self' m rest)
  then show ?case by (auto dest: create_playlist_undo_stack)
next
  case (r_add_to_playlist self ins self' m rest)
  then show ?case by (auto dest: add_song_to_playlist_undo_stack)
qed

section \<open>Undo\<close>

text \<open>
  C2. In every state the application can reach: with an empty undo stack, \<open>undo\<close>
  reports that there is nothing to undo and changes nothing (songs, playlists, undo
  stack and data file are as before); with a non-empty stack it pops the most recent
  entry, which records a removed song, appends that song to the songs list, and leaves
  every playlist as it was.
\<close>

theorem undo_spec:
  assumes "reachable self"
  shows "(undo_stack self = [] \<longrightarrow> undo self = (self, NothingToUndo))
       \<and> (undo_stack self \<noteq> [] \<longrightarrow>
            (\<exists>entries song.
               undo_stack self = entries @ [(''remove'', song)]
               \<and> undo self = (save_data (self\<lparr>undo_stack := entries, songs := songs self @ [song]\<rparr>),
                              UndoRestored (name song))
               \<and> playlists (fst (undo self)) = playlists self))"
proof (intro conjI impI)
  assume "undo_stack self = []"
  then show "undo self = (self, NothingToUndo)" by (simp add: undo_def)
next
  assume ne: "undo_stack self \<noteq> []"
  define entries where "entries = butlast (undo_stack self)"
  define song where "song = snd (last (undo_stack self))"
  have "fst (last (undo_stack self)) = ''remove''"
    using reachable_undo_kinds [OF assms] ne by (simp add: list_all_iff)
  then have l: "last (undo_stack self) = (''remove'', song)"
    by (simp add: song_def prod_eq_iff)
  have us: "undo_stack self = entries @ [(''remove'', song)]"
    using ne l append_butlast_last_id [of "undo_stack self"] by (simp add: entries_def)
  have u: "undo self = (save_data (self\<lparr>undo_stack := entries, songs := songs self @ [song]\<rparr>),
                              UndoRestored (name song))"
    using ne l by (simp add: undo_def Let_def entries_def)
  have "playlists (fst (undo self)) = playlists self"
    unfolding u by (simp add: save_data_def)
  with us u show "\<exists>entries song.
               undo_stack self = entries @ [(''remove'', song)]
               \<and> undo self = (save_data (self\<lparr>undo_stack := entries, songs := songs self @ [song]\<rparr>),
                              UndoRestored (name song))
               \<and> playlists (fst (undo self)) = playlists self"
    by blast
qed


theorem undo_spec_witness:
  "reachable example_removed
   \<and> undo_stack example_removed = [] @ [(''remove'', alpha)]
   \<and> undo example_removed
       = (save_data (example_removed\<lparr>undo_stack := [], songs := songs example_removed @ [alpha]\<rparr>),
          UndoRestored (name alpha))
   \<and> songs (fst (undo example_removed)) = [alpha]
   \<and> playlists (fst (undo example_removed)) = [\<lparr>pl_name = ''P'', pl_songs = []\<rparr>]
   \<and> reachable example_app
   \<and> undo_stack example_app = []
   \<and> undo example_app = (example_app, NothingToUndo)"
proof -
  have us: "undo_stack example_removed = [] @ [(''remove'', alpha)]"
    by (simp add: example_removed_def)
  from undo_spec [OF reachable_removed] us obtain entries song
    where e: "undo_stack example_removed = entries @ [(''remove'', song)]"
      and u: "undo example_removed
        = (save_data (example_removed\<lparr>undo_stack := entries, songs := songs example_removed @ [song]\<rparr>),
           UndoRestored (name song))"
    by auto
  from e us have "entries = []" "song = alpha" by simp_all
  with u have u': "undo example_removed
       = (save_data (example_removed\<lparr>undo_stack := [], songs := songs example_removed @ [alpha]\<rparr>),
          UndoRestored (name alpha))" by simp
  have s: "songs (fst (undo example_removed)) = [alpha]"
    and p: "playlists (fst (undo example_removed)) = [\<lparr>pl_name = ''P'', pl_songs = []\<rparr>]"
    unfolding u' by (simp_all add: example_removed_def)
  have n: "undo_stack example_app = []" by (simp add: example_app_def)
  with undo_spec [OF reachable_example] have "undo example_app = (example_app, NothingToUndo)"
    by simp
  with reachable_removed reachable_example us u' s p n show ?thesis by simp
qed

section \<open>Songs of playlists are songs of the library\<close>



lemma lib_inv_undo_stack [simp]: "lib_inv (self\<lparr>undo_stack := u\<rparr>) = lib_inv self"
  by (simp add: lib_inv_def)



















section \<open>Adding a song to a playlist\<close>

text \<open>
  C8. For every library state and every pair of names entered: when no song's name or no
  playlist's name matches case-insensitively, \<open>add_song_to_playlist\<close> reports not-found
  and changes nothing. When both match, it appends the first matching song to the end of
  the first matching playlist's song list, whether or not the playlist holds that song
  already, and saves.
\<close>

theorem add_song_to_playlist_spec:
  assumes "get_valid_input False ins = Inr (song_name, rest)"
    and "get_valid_input False rest = Inr (playlist_name, rest')"
  shows "(\<not> list_ex (\<lambda>s. lower (name s) = lower song_name) (songs self)
          \<or> \<not> list_ex (\<lambda>p. lower (pl_name p) = lower playlist_name) (playlists self) \<longrightarrow>
            add_song_to_playlist self ins = Inr (self, SongOrPlaylistNotFound, rest'))
       \<and> (\<forall>spre song spost ppre pl ppost.
              songs self = spre @ song # spost
              \<and> list_all (\<lambda>s. lower (name s) \<noteq> lower song_name) spre
              \<and> lower (name song) = lower song_name
              \<and> playlists self = ppre @ pl # ppost
              \<and> list_all (\<lambda>p. lower (pl_name p) \<noteq> lower playlist_name) ppre
              \<and> lower (pl_name pl) = lower playlist_name \<longrightarrow>
            add_song_to_playlist self ins =
              Inr (save_data (self\<lparr>playlists := ppre @ pl\<lparr>pl_songs := pl_songs pl @ [song]\<rparr> # ppost\<rparr>),
                   AddedToPlaylist, rest'))"
proof (intro conjI allI impI)
  assume "\<not> list_ex (\<lambda>s. lower (name s) = lower song_name) (songs self)
          \<or> \<not> list_ex (\<lambda>p. lower (pl_name p) = lower playlist_name) (playlists self)"
  then have "find (\<lambda>s. lower (name s) = lower song_name) (songs self) = None
      \<or> find (\<lambda>p. lower (pl_name p) = lower playlist_name) (playlists self) = None"
    by (simp add: find_None_list_ex)
  then show "add_song_to_playlist self ins = Inr (self, SongOrPlaylistNotFound, rest')"
    using assms by (auto simp: add_song_to_playlist_def split: option.splits)
next
  fix spre song spost ppre pl ppost
  assume h: "songs self = spre @ song # spost
              \<and> list_all (\<lambda>s. lower (name s) \<noteq> lower song_name) spre
              \<and> lower (name song) = lower song_name
              \<and> playlists self = ppre @ pl # ppost
              \<and> list_all (\<lambda>p. lower (pl_name p) \<noteq> lower playlist_name) ppre
              \<and> lower (pl_name pl) = lower playlist_name"
  then have fs: "find (\<lambda>s. lower (name s) = lower song_name) (songs self) = Some song"
    using find_first [of "\<lambda>s. lower (name s) = lower song_name" spre song spost] by simp
  from h have fp: "find (\<lambda>p. lower (pl_name p) = lower playlist_name) (playlists self) = Some pl"
    using find_first [of "\<lambda>p. lower (pl_name p) = lower playlist_name" ppre pl ppost] by simp
  from h have up: "update_first (\<lambda>p. lower (pl_name p) = lower playlist_name)
      (\<lambda>p. Playlist_add_song p song) (playlists self)
      = ppre @ pl\<lparr>pl_songs := pl_songs pl @ [song]\<rparr> # ppost"
    using update_first_split [of "\<lambda>p. lower (pl_name p) = lower playlist_name" ppre pl
        "\<lambda>p. Playlist_add_song p song" ppost]
    by (simp add: Playlist_add_song_def)
  show "add_song_to_playlist self ins =
      Inr (save_data (self\<lparr>playlists := ppre @ pl\<lparr>pl_songs := pl_songs pl @ [song]\<rparr> # ppost\<rparr>),
           AddedToPlaylist, rest')"
    using assms fs fp up by (simp add: add_song_to_playlist_def)
qed

theorem add_song_to_playlist_spec_witness:
  "get_valid_input False [''alpha'', ''p''] = Inr (''alpha'', [''p''])
   \<and> get_valid_input False [''p''] = Inr (''p'', [])
   \<and> songs example_app = [] @ alpha # []
   \<and> lower (name alpha) = lower ''alpha''
   \<and> playlists example_app = [] @ \<lparr>pl_name = ''P'', pl_songs = [alpha]\<rparr> # []
   \<and> lower (pl_name \<lparr>pl_name = ''P'', pl_songs = [alpha]\<rparr>) = lower ''p''
   \<and> add_song_to_playlist example_app [''alpha'', ''p'']
       = Inr (save_data (example_app\<lparr>playlists := [\<lparr>pl_name = ''P'', pl_songs = [alpha, alpha]\<rparr>]\<rparr>),
              AddedToPlaylist, [])
   \<and> get_valid_input False [''alpha'', ''other''] = Inr (''alpha'', [''other''])
   \<and> get_valid_input False [''other''] = Inr (''other'', [])
   \<and> \<not> list_ex (\<lambda>p. lower (pl_name p) = lower ''other'') (playlists example_app)
   \<and> add_song_to_playlist example_app [''alpha'', ''other'']
       = Inr (example_app, SongOrPlaylistNotFound, [])
   \<and> get_valid_input False [''gamma'', ''p''] = Inr (''gamma'', [''p''])
   \<and> \<not> list_ex (\<lambda>s. lower (name s) = lower ''gamma'') (songs example_app)
   \<and> add_song_to_playlist example_app [''gamma'', ''p'']
       = Inr (example_app, SongOrPlaylistNotFound, [])"
proof -
  have g1: "get_valid_input False [''alpha'', ''p''] = Inr (''alpha'', [''p''])"
    and g2: "get_valid_input False [''p''] = Inr (''p'', [])"
    and g3: "get_valid_input False [''alpha'', ''other''] = Inr (''alpha'', [''other''])"
    and g4: "get_valid_input False [''other''] = Inr (''other'', [])"
    and g5: "get_valid_input False [''gamma'', ''p''] = Inr (''gamma'', [''p''])"
    by (simp_all add: strip_def isspace_def)
  have s: "songs example_app = [] @ alpha # []"
    and p: "playlists example_app = [] @ \<lparr>pl_name = ''P'', pl_songs = [alpha]\<rparr> # []"
    by (simp_all add: example_app_def)
  have ms: "lower (name alpha) = lower ''alpha''"
    and mp: "lower (pl_name \<lparr>pl_name = ''P'', pl_songs = [alpha]\<rparr>) = lower ''p''"
    by (simp_all add: alpha_def lower_def lower_char_def)
  have no: "\<not> list_ex (\<lambda>p. lower (pl_name p) = lower ''other'') (playlists example_app)"
    and ng: "\<not> list_ex (\<lambda>s. lower (name s) = lower ''gamma'') (songs example_app)"
    by (simp_all add: example_app_def alpha_def lower_def lower_char_def)
  have e1: "list_all (\<lambda>s. lower (name s) \<noteq> lower ''alpha'') []"
    and e2: "list_all (\<lambda>p. lower (pl_name p) \<noteq> lower ''p'') []"
    by simp_all
  have "add_song_to_playlist example_app [''alpha'', ''p''] =
      Inr (save_data (example_app\<lparr>playlists :=
             [] @ \<lparr>pl_name = ''P'', pl_songs = [alpha]\<rparr>\<lparr>pl_songs :=
                pl_songs \<lparr>pl_name = ''P'', pl_songs = [alpha]\<rparr> @ [alpha]\<rparr> # []\<rparr>),
           AddedToPlaylist, [])"
    using add_song_to_playlist_spec [OF g1 g2, of example_app] s p ms mp e1 e2 by blast
  then have r1: "add_song_to_playlist example_app [''alpha'', ''p'']
       = Inr (save_data (example_app\<lparr>playlists := [\<lparr>pl_name = ''P'', pl_songs = [alpha, alpha]\<rparr>]\<rparr>),
              AddedToPlaylist, [])"
    by simp
  have r2: "add_song_to_playlist example_app [''alpha'', ''other'']
       = Inr (example_app, SongOrPlaylistNotFound, [])"
    using add_song_to_playlist_spec [OF g3 g4, of example_app] no by blast
  have r3: "add_song_to_playlist example_app [''gamma'', ''p'']
       = Inr (example_app, SongOrPlaylistNotFound, [])"
    using add_song_to_playlist_spec [OF g5 g2, of example_app] ng by blast
  show ?thesis
    using g1 g2 g3 g4 g5 s p ms mp no ng r1 r2 r3 by blast
qed

section \<open>Exporting a playlist\<close>

lemma foldl_write: "foldl (\<lambda>f s. f @ g s) acc xs = acc @ concat (map g xs)"
  by (induction xs arbitrary: acc) auto

text \<open>
  C9, as the claim states it, fails: the file name is the playlist name entered, with
  blanks replaced and \<open>.txt\<close> added, and nothing handles an \<open>open\<close> that fails. For the
  playlist \<open>AC/DC\<close> in a directory without a subdirectory \<open>AC\<close>, \<open>open\<close> raises
  \<open>FileNotFoundError\<close>, which leaves \<open>export_playlist\<close>: no output is produced.
\<close>

theorem export_unwritable_counterexample:
  "find (\<lambda>p. lower (pl_name p) = lower ''AC/DC'') (playlists slash_app)
     = Some \<lparr>pl_name = ''AC/DC'', pl_songs = [alpha]\<rparr>
   \<and> str_replace (CHR '' '') (CHR ''_'') ''AC/DC'' @ ''.txt'' = ''AC/DC.txt''
   \<and> no_directory_AC ''AC/DC.txt'' = Some FileNotFoundError
   \<and> export_playlist slash_app no_directory_AC (Some ''AC/DC'') [] = Inl FileNotFoundError"
  by (simp add: export_playlist_def slash_app_def no_directory_AC_def lower_def lower_char_def)

text \<open>
  C9, amended. Exporting the first playlist whose name matches, when the export file can
  be opened for writing: if the playlist has no songs, the file written is the line with
  the playlist's name and nothing else, so it has no \<open>Songs:\<close> section; if it has
  songs, the file is the name line, the line \<open>Songs:\<close>, and then one line for each
  entry of the playlist, in the playlist's order, made of the entry's name, artists and
  duration. When the file cannot be opened, the error that \<open>open\<close> raises leaves
  \<open>export_playlist\<close> and nothing is written.
\<close>

theorem export_playlist_spec:
  assumes "(case playlist_name_arg of None \<Rightarrow> get_valid_input False ins | Some given \<Rightarrow> Inr (given, ins))
             = Inr (playlist_name, rest)"
    and "playlists self = ppre @ pl # ppost"
    and "list_all (\<lambda>p. lower (pl_name p) \<noteq> lower playlist_name) ppre"
    and "lower (pl_name pl) = lower playlist_name"
  shows "(fs (str_replace (CHR '' '') (CHR ''_'') playlist_name @ ''.txt'') = None \<longrightarrow>
          (\<exists>content.
             export_playlist self fs playlist_name_arg ins =
               Inr (Some (str_replace (CHR '' '') (CHR ''_'') playlist_name @ ''.txt'', content),
                    PlaylistExported playlist_name
                      (str_replace (CHR '' '') (CHR ''_'') playlist_name @ ''.txt''),
                    rest)
             \<and> (pl_songs pl = [] \<longrightarrow> content = ''Playlist: '' @ pl_name pl @ [CHR 0x0A])
             \<and> (pl_songs pl \<noteq> [] \<longrightarrow>
                  content = ''Playlist: '' @ pl_name pl @ [CHR 0x0A] @ ''Songs:'' @ [CHR 0x0A]
                              @ concat (map export_line (pl_songs pl)))))
       \<and> (\<forall>e. fs (str_replace (CHR '' '') (CHR ''_'') playlist_name @ ''.txt'') = Some e \<longrightarrow>
            export_playlist self fs playlist_name_arg ins = Inl e)"
proof -
  have f: "find (\<lambda>p. lower (pl_name p) = lower playlist_name) (playlists self) = Some pl"
    using assms(2-4) find_first [of "\<lambda>p. lower (pl_name p) = lower playlist_name" ppre pl ppost]
    by simp
  show ?thesis
    using assms(1) f by (simp add: export_playlist_def Let_def foldl_write)
qed

theorem export_playlist_spec_witness:
  "playlists export_app = [\<lparr>pl_name = ''Empty Playlist'', pl_songs = []\<rparr>] @ two_songs # []
   \<and> list_all (\<lambda>p. lower (pl_name p) \<noteq> lower ''road trip'') [\<lparr>pl_name = ''Empty Playlist'', pl_songs = []\<rparr>]
   \<and> lower (pl_name two_songs) = lower ''road trip''
   \<and> pl_songs two_songs \<noteq> []
   \<and> writable ''road_trip.txt'' = None
   \<and> export_playlist export_app writable (Some ''road trip'') []
       = Inr (Some (''road_trip.txt'',
                ''Playlist: Road Trip\<newline>Songs:\<newline>Alpha by A1, A2 (3:30)\<newline>Beta by B (4:10)\<newline>Alpha by A1, A2 (3:30)\<newline>''),
              PlaylistExported ''road trip'' ''road_trip.txt'', [])
   \<and> get_valid_input False [''EMPTY playlist''] = Inr (''EMPTY playlist'', [])
   \<and> playlists export_app = [] @ \<lparr>pl_name = ''Empty Playlist'', pl_songs = []\<rparr> # [two_songs]
   \<and> lower (pl_name \<lparr>pl_name = ''Empty Playlist'', pl_songs = []\<rparr>) = lower ''EMPTY playlist''
   \<and> writable ''EMPTY_playlist.txt'' = None
   \<and> export_playlist export_app writable None [''EMPTY playlist'']
       = Inr (Some (''EMPTY_playlist.txt'', ''Playlist: Empty Playlist\<newline>''),
              PlaylistExported ''EMPTY playlist'' ''EMPTY_playlist.txt'', [])
   \<and> playlists slash_app = [] @ \<lparr>pl_name = ''AC/DC'', pl_songs = [alpha]\<rparr> # []
   \<and> no_directory_AC ''AC/DC.txt'' = Some FileNotFoundError
   \<and> lower (pl_name \<lparr>pl_name = ''AC/DC'', pl_songs = [alpha]\<rparr>) = lower ''AC/DC''
   \<and> export_playlist slash_app no_directory_AC (Some ''AC/DC'') [] = Inl FileNotFoundError"
proof -
  have p1: "playlists export_app = [\<lparr>pl_name = ''Empty Playlist'', pl_songs = []\<rparr>] @ two_songs # []"
    and p2: "playlists export_app = [] @ \<lparr>pl_name = ''Empty Playlist'', pl_songs = []\<rparr> # [two_songs]"
    by (simp_all add: export_app_def)
  have p3: "playlists slash_app = [] @ \<lparr>pl_name = ''AC/DC'', pl_songs = [alpha]\<rparr> # []"
    by (simp add: slash_app_def)
  have n1: "list_all (\<lambda>p. lower (pl_name p) \<noteq> lower ''road trip'')
      [\<lparr>pl_name = ''Empty Playlist'', pl_songs = []\<rparr>]"
    and n2: "list_all (\<lambda>p. lower (pl_name p) \<noteq> lower ''EMPTY playlist'') []"
    and n4: "list_all (\<lambda>p. lower (pl_name p) \<noteq> lower ''AC/DC'') []"
    by (simp_all add: lower_def lower_char_def)
  have m1: "lower (pl_name two_songs) = lower ''road trip''"
    and m2: "lower (pl_name \<lparr>pl_name = ''Empty Playlist'', pl_songs = []\<rparr>) = lower ''EMPTY playlist''"
    and m4: "lower (pl_name \<lparr>pl_name = ''AC/DC'', pl_songs = [alpha]\<rparr>) = lower ''AC/DC''"
    by (simp_all add: two_songs_def lower_def lower_char_def)
  have ne: "pl_songs two_songs \<noteq> []" by (simp add: two_songs_def)
  have w1: "writable ''road_trip.txt'' = None" and w2: "writable ''EMPTY_playlist.txt'' = None"
    by (simp_all add: writable_def)
  have w4: "no_directory_AC ''AC/DC.txt'' = Some FileNotFoundError"
    by (simp add: no_directory_AC_def)
  have a1: "(case Some ''road trip'' of None \<Rightarrow> get_valid_input False []
      | Some given \<Rightarrow> Inr (given, [])) = Inr (''road trip'', [])" by simp
  have g: "get_valid_input False [''EMPTY playlist''] = Inr (''EMPTY playlist'', [])"
    by (simp add: strip_def isspace_def)
  then have a2: "(case None of None \<Rightarrow> get_valid_input False [''EMPTY playlist'']
      | Some given \<Rightarrow> Inr (given, [''EMPTY playlist''])) = Inr (''EMPTY playlist'', [])" by simp
  have a4: "(case Some ''AC/DC'' of None \<Rightarrow> get_valid_input False []
      | Some given \<Rightarrow> Inr (given, [])) = Inr (''AC/DC'', [])" by simp
  have f1: "str_replace (CHR '' '') (CHR ''_'') ''road trip'' @ ''.txt'' = ''road_trip.txt''"
    and f2: "str_replace (CHR '' '') (CHR ''_'') ''EMPTY playlist'' @ ''.txt'' = ''EMPTY_playlist.txt''"
    and f4: "str_replace (CHR '' '') (CHR ''_'') ''AC/DC'' @ ''.txt'' = ''AC/DC.txt''"
    by simp_all
  from export_playlist_spec [OF a1 p1 n1 m1, of writable] ne w1
  have "export_playlist export_app writable (Some ''road trip'') [] =
      Inr (Some (''road_trip.txt'',
             ''Playlist: '' @ pl_name two_songs @ [CHR 0x0A] @ ''Songs:'' @ [CHR 0x0A]
               @ concat (map export_line (pl_songs two_songs))),
           PlaylistExported ''road trip'' ''road_trip.txt'', [])"
    unfolding f1 by auto
  then have r1: "export_playlist export_app writable (Some ''road trip'') []
       = Inr (Some (''road_trip.txt'',
                ''Playlist: Road Trip\<newline>Songs:\<newline>Alpha by A1, A2 (3:30)\<newline>Beta by B (4:10)\<newline>Alpha by A1, A2 (3:30)\<newline>''),
              PlaylistExported ''road trip'' ''road_trip.txt'', [])"
    by (simp add: two_songs_def alpha_def export_line_def)
  from export_playlist_spec [OF a2 p2 n2 m2, of writable] w2
  have "export_playlist export_app writable None [''EMPTY playlist''] =
      Inr (Some (''EMPTY_playlist.txt'', ''Playlist: '' @ ''Empty Playlist'' @ [CHR 0x0A]),
           PlaylistExported ''EMPTY playlist'' ''EMPTY_playlist.txt'', [])"
    unfolding f2 by auto
  then have r2: "export_playlist export_app writable None [''EMPTY playlist'']
       = Inr (Some (''EMPTY_playlist.txt'', ''Playlist: Empty Playlist\<newline>''),
              PlaylistExported ''EMPTY playlist'' ''EMPTY_playlist.txt'', [])"
    by simp
  from export_playlist_spec [OF a4 p3 n4 m4, of no_directory_AC] w4
  have r4: "export_playlist slash_app no_directory_AC (Some ''AC/DC'') [] = Inl FileNotFoundError"
    unfolding f4 by auto
  show ?thesis
    using p1 p2 p3 n1 m1 m2 m4 ne w1 w2 w4 g r1 r2 r4 by blast
qed

section \<open>Searching\<close>

lemma get_valid_input_nonempty:
  "get_valid_input False ins = Inr (v, rest) \<Longrightarrow> v \<noteq> [] \<and> strip v = v"
  by (induction ins) (auto simp: Let_def strip_idem split: if_splits)

lemma str_contains_empty: "str_contains s []"
  by (cases s) simp_all

text \<open>
  C10, as the claim states it, fails: the empty string never becomes the search term.
  \<open>search_songs\<close> reads the term with \<open>get_valid_input\<close>, which refuses an empty
  entry and asks again; the next entry is the term, and the end of the input raises
  \<open>EOFError\<close>.
\<close>

theorem empty_search_term_counterexample:
  "songs example_app = [alpha]
   \<and> search_songs example_app [[], ''zzz''] = Inr (NoMatchingSongs ''zzz'', [])
   \<and> search_songs example_app [[]] = Inl EOFError"
  by (simp add: search_songs_def example_app_def alpha_def strip_def isspace_def lower_def
      lower_char_def)

text \<open>
  C10, amended. The term \<open>search_songs\<close> searches with is the first entry that is not
  empty once trimmed, so it is never the empty string; the result is every song whose
  lower-cased name contains the lower-cased term, in library order. The filter itself,
  given the empty string, keeps every song of the library in library order, because the
  empty string is contained in every name.
\<close>

theorem search_songs_spec:
  "(get_valid_input False ins = Inr (search_term, rest) \<longrightarrow>
      search_term \<noteq> []
      \<and> search_songs self ins =
          Inr (if filter (\<lambda>s. str_contains (lower (name s)) (lower search_term)) (songs self) \<noteq> []
               then SearchResults
                      (filter (\<lambda>s. str_contains (lower (name s)) (lower search_term)) (songs self))
               else NoMatchingSongs search_term,
               rest))
   \<and> filter (\<lambda>s. str_contains (lower (name s)) (lower [])) (songs self) = songs self"
  using get_valid_input_nonempty [of ins search_term rest]
  by (auto simp: search_songs_def Let_def str_contains_empty lower_def)

theorem search_songs_spec_witness:
  "get_valid_input False [''  '', '' LPH ''] = Inr (''LPH'', [])
   \<and> ''LPH'' \<noteq> []
   \<and> search_songs example_app [''  '', '' LPH ''] = Inr (SearchResults [alpha], [])
   \<and> filter (\<lambda>s. str_contains (lower (name s)) (lower [])) (songs example_app) = [alpha]"
proof -
  have g: "get_valid_input False [''  '', '' LPH ''] = Inr (''LPH'', [])"
    by (simp add: strip_def isspace_def)
  have f: "filter (\<lambda>s. str_contains (lower (name s)) (lower ''LPH'')) (songs example_app) = [alpha]"
    by (simp add: example_app_def alpha_def lower_def lower_char_def)
  from search_songs_spec [of "[''  '', '' LPH '']" "''LPH''" "[]" example_app] g
  have "search_songs example_app [''  '', '' LPH ''] =
          Inr (if filter (\<lambda>s. str_contains (lower (name s)) (lower ''LPH'')) (songs example_app) \<noteq> []
               then SearchResults
                      (filter (\<lambda>s. str_contains (lower (name s)) (lower ''LPH'')) (songs example_app))
               else NoMatchingSongs ''LPH'',
               [])"
    and a: "filter (\<lambda>s. str_contains (lower (name s)) (lower [])) (songs example_app)
        = songs example_app"
    by blast+
  then have r: "search_songs example_app [''  '', '' LPH ''] = Inr (SearchResults [alpha], [])"
    unfolding f by simp
  from a have "filter (\<lambda>s. str_contains (lower (name s)) (lower [])) (songs example_app) = [alpha]"
    by (simp add: example_app_def)
  with g r show ?thesis by simp
qed

section \<open>Loading the data file\<close>

lemma map_result_first_error:
  "map_result f good = Inr ys \<Longrightarrow> f bad = Inl e \<Longrightarrow> map_result f (good @ bad # rest) = Inl e"
  by (induction good arbitrary: ys) (auto split: sum.splits)

text \<open>
  \<open>Song.from_dict\<close> raises \<open>KeyError\<close> exactly when a key is missing, with the first
  missing key in the order it reads them.
\<close>

lemma Song_from_dict_KeyError:
  "Song_from_dict data = Inl (KeyError k) \<longleftrightarrow>
     (sd_name data = None \<and> k = ''name'')
     \<or> (sd_name data \<noteq> None \<and> sd_artists data = None \<and> k = ''artists'')
     \<or> (sd_name data \<noteq> None \<and> sd_artists data \<noteq> None \<and> sd_album data = None \<and> k = ''album'')
     \<or> (sd_name data \<noteq> None \<and> sd_artists data \<noteq> None \<and> sd_album data \<noteq> None
          \<and> sd_genre data = None \<and> k = ''genre'')
     \<or> (sd_name data \<noteq> None \<and> sd_artists data \<noteq> None \<and> sd_album data \<noteq> None
          \<and> sd_genre data \<noteq> None \<and> sd_duration data = None \<and> k = ''duration'')"
  by (cases "sd_name data"; cases "sd_artists data"; cases "sd_album data"; cases "sd_genre data";
      cases "sd_duration data")
     (auto simp: Song_from_dict_def getitem_def Song_init_def)

text \<open>
  What the \<open>except\<close> clause does not catch leaves \<open>load_data\<close> (and, at construction,
  the constructor): a file that is not text, JSON that is not an object, and a song
  record that the constructor refuses while the songs are read.
\<close>

lemma load_data_uncaught:
  "(data_file self = Some Undecodable \<longrightarrow> load_data self = (self, Raised UnicodeDecodeError))
   \<and> (data_file self = Some NotAnObject \<longrightarrow> load_data self = (self, Raised TypeError))
   \<and> (data_file self = Some (Document data) \<and> doc_songs data = Some (good @ bad # rest)
        \<and> map_result Song_from_dict good = Inr loaded \<and> Song_from_dict bad = Inl (ValueError msg) \<longrightarrow>
        load_data self = (self, Raised (ValueError msg)))"
  by (auto simp: load_data_def getitem_def except_handler_def map_result_first_error)

text \<open>
  C6, as the claim states it, fails: \<open>load_data\<close> assigns \<open>self.songs\<close> before it
  reads the playlists, and nothing resets it. With a file whose songs are well formed and
  whose \<open>playlists\<close> key is missing, the error is reported and the songs stay loaded.
\<close>

theorem partial_load_counterexample:
  "MusicApp_init (Some (Document \<lparr>doc_songs = Some [Song_to_dict alpha], doc_playlists = None\<rparr>))
     = (\<lparr>songs = [alpha], playlists = [], undo_stack = [],
         data_file = Some (Document \<lparr>doc_songs = Some [Song_to_dict alpha], doc_playlists = None\<rparr>)\<rparr>,
        Reported (KeyError ''playlists''))"
  by (simp add: MusicApp_init_def unloaded_def load_data_def getitem_def song_from_dict_alpha
      except_handler_def)

text \<open>
  C6, amended. For a data file that exists, in four cases \<open>load_data\<close> reports the error
  and leaves part or all of the state as it was before the load (at construction: no
  songs, no playlists). The first three leave the whole state as it was: the file is text
  that \<open>json.load\<close> rejects with \<open>JSONDecodeError\<close>; the file is a JSON object without
  the key \<open>songs\<close>; in the
  list of songs a record lacks a key and every record before it is a valid song. The
  fourth keeps the songs it has read and leaves the playlists as they were: every song
  record is a valid song, and the key \<open>playlists\<close> is missing, or in the list of
  playlists a record fails for a missing key and every record before it loads. Nothing is
  stated here for the other files (a file that is not text, JSON that is not an object, a
  record with a refused name or duration before the failing one, values of other types).
\<close>

theorem load_data_failure:
  "(data_file self = Some Malformed \<longrightarrow> load_data self = (self, Reported JSONDecodeError))
   \<and> (data_file self = Some (Document data) \<and> doc_songs data = None \<longrightarrow>
        load_data self = (self, Reported (KeyError ''songs'')))
   \<and> (data_file self = Some (Document data) \<and> doc_songs data = Some (good @ bad # rest)
        \<and> map_result Song_from_dict good = Inr loaded \<and> Song_from_dict bad = Inl (KeyError k) \<longrightarrow>
        load_data self = (self, Reported (KeyError k)))
   \<and> (data_file self = Some (Document data) \<and> doc_songs data = Some sds
        \<and> map_result Song_from_dict sds = Inr ss \<and> doc_playlists data = None \<longrightarrow>
        load_data self = (self\<lparr>songs := ss\<rparr>, Reported (KeyError ''playlists'')))
   \<and> (data_file self = Some (Document data) \<and> doc_songs data = Some sds
        \<and> map_result Song_from_dict sds = Inr ss
        \<and> doc_playlists data = Some (pgood @ pbad # prest)
        \<and> map_result Playlist_from_dict pgood = Inr ploaded
        \<and> Playlist_from_dict pbad = Inl (KeyError k) \<longrightarrow>
        load_data self = (self\<lparr>songs := ss\<rparr>, Reported (KeyError k)))"
  by (auto simp: load_data_def getitem_def except_handler_def map_result_first_error)

theorem load_data_failure_witness:
  "data_file (unloaded (Some Malformed)) = Some Malformed
   \<and> load_data (unloaded (Some Malformed)) = (unloaded (Some Malformed), Reported JSONDecodeError)
   \<and> data_file (unloaded (Some (Document \<lparr>doc_songs = None, doc_playlists = Some []\<rparr>)))
       = Some (Document \<lparr>doc_songs = None, doc_playlists = Some []\<rparr>)
   \<and> doc_songs \<lparr>doc_songs = None, doc_playlists = Some []\<rparr> = None
   \<and> load_data (unloaded (Some (Document \<lparr>doc_songs = None, doc_playlists = Some []\<rparr>)))
       = (unloaded (Some (Document \<lparr>doc_songs = None, doc_playlists = Some []\<rparr>)),
          Reported (KeyError ''songs''))
   \<and> map_result Song_from_dict [Song_to_dict alpha] = Inr [alpha]
   \<and> Song_from_dict ((Song_to_dict alpha)\<lparr>sd_genre := None\<rparr>) = Inl (KeyError ''genre'')
   \<and> load_data (unloaded (Some (Document
         \<lparr>doc_songs = Some ([Song_to_dict alpha] @ (Song_to_dict alpha)\<lparr>sd_genre := None\<rparr> # []),
          doc_playlists = Some []\<rparr>)))
       = (unloaded (Some (Document
         \<lparr>doc_songs = Some ([Song_to_dict alpha] @ (Song_to_dict alpha)\<lparr>sd_genre := None\<rparr> # []),
          doc_playlists = Some []\<rparr>)),
          Reported (KeyError ''genre''))
   \<and> load_data (unloaded (Some (Document \<lparr>doc_songs = Some [Song_to_dict alpha], doc_playlists = None\<rparr>)))
       = ((unloaded (Some (Document \<lparr>doc_songs = Some [Song_to_dict alpha], doc_playlists = None\<rparr>)))
            \<lparr>songs := [alpha]\<rparr>,
          Reported (KeyError ''playlists''))
   \<and> map_result Playlist_from_dict [] = Inr []
   \<and> Playlist_from_dict \<lparr>pd_name = Some ''P'', pd_songs = None\<rparr> = Inl (KeyError ''songs'')
   \<and> load_data (unloaded (Some (Document
         \<lparr>doc_songs = Some [Song_to_dict alpha],
          doc_playlists = Some ([] @ \<lparr>pd_name = Some ''P'', pd_songs = None\<rparr> # [])\<rparr>)))
       = ((unloaded (Some (Document
         \<lparr>doc_songs = Some [Song_to_dict alpha],
          doc_playlists = Some ([] @ \<lparr>pd_name = Some ''P'', pd_songs = None\<rparr> # [])\<rparr>)))
            \<lparr>songs := [alpha]\<rparr>,
          Reported (KeyError ''songs''))"
proof -
  have d: "\<And>c. data_file (unloaded (Some c)) = Some c" by (simp add: unloaded_def)
  have s1: "Song_from_dict ((Song_to_dict alpha)\<lparr>sd_genre := None\<rparr>) = Inl (KeyError ''genre'')"
    by (simp add: Song_from_dict_def Song_to_dict_def getitem_def)
  have s2: "map_result Song_from_dict [Song_to_dict alpha] = Inr [alpha]"
    by (simp add: song_from_dict_alpha)
  have p0: "map_result Playlist_from_dict [] = Inr []" by simp
  have p1: "Playlist_from_dict \<lparr>pd_name = Some ''P'', pd_songs = None\<rparr> = Inl (KeyError ''songs'')"
    by (simp add: Playlist_from_dict_def getitem_def)
  note t = load_data_failure
  have r1: "load_data (unloaded (Some Malformed)) = (unloaded (Some Malformed), Reported JSONDecodeError)"
    using t [of "unloaded (Some Malformed)"] d by blast
  have r2: "load_data (unloaded (Some (Document \<lparr>doc_songs = None, doc_playlists = Some []\<rparr>)))
       = (unloaded (Some (Document \<lparr>doc_songs = None, doc_playlists = Some []\<rparr>)),
          Reported (KeyError ''songs''))"
    using t [where self = "unloaded (Some (Document \<lparr>doc_songs = None, doc_playlists = Some []\<rparr>))"
        and data = "\<lparr>doc_songs = None, doc_playlists = Some []\<rparr>"] d
    by simp
  have r3: "load_data (unloaded (Some (Document
         \<lparr>doc_songs = Some ([Song_to_dict alpha] @ (Song_to_dict alpha)\<lparr>sd_genre := None\<rparr> # []),
          doc_playlists = Some []\<rparr>)))
       = (unloaded (Some (Document
         \<lparr>doc_songs = Some ([Song_to_dict alpha] @ (Song_to_dict alpha)\<lparr>sd_genre := None\<rparr> # []),
          doc_playlists = Some []\<rparr>)),
          Reported (KeyError ''genre''))"
    using t [where self = "unloaded (Some (Document
         \<lparr>doc_songs = Some ([Song_to_dict alpha] @ (Song_to_dict alpha)\<lparr>sd_genre := None\<rparr> # []),
          doc_playlists = Some []\<rparr>))"
        and data = "\<lparr>doc_songs = Some ([Song_to_dict alpha] @ (Song_to_dict alpha)\<lparr>sd_genre := None\<rparr> # []),
          doc_playlists = Some []\<rparr>"
        and good = "[Song_to_dict alpha]" and bad = "(Song_to_dict alpha)\<lparr>sd_genre := None\<rparr>"
        and rest = "[]" and loaded = "[alpha]" and k = "''genre''"] d s1 s2
    by simp
  have r4: "load_data (unloaded (Some (Document \<lparr>doc_songs = Some [Song_to_dict alpha], doc_playlists = None\<rparr>)))
       = ((unloaded (Some (Document \<lparr>doc_songs = Some [Song_to_dict alpha], doc_playlists = None\<rparr>)))
            \<lparr>songs := [alpha]\<rparr>,
          Reported (KeyError ''playlists''))"
    using t [where self = "unloaded (Some (Document \<lparr>doc_songs = Some [Song_to_dict alpha], doc_playlists = None\<rparr>))"
        and data = "\<lparr>doc_songs = Some [Song_to_dict alpha], doc_playlists = None\<rparr>"
        and sds = "[Song_to_dict alpha]" and ss = "[alpha]"] d s2
    by simp
  have r5: "load_data (unloaded (Some (Document
         \<lparr>doc_songs = Some [Song_to_dict alpha],
          doc_playlists = Some ([] @ \<lparr>pd_name = Some ''P'', pd_songs = None\<rparr> # [])\<rparr>)))
       = ((unloaded (Some (Document
         \<lparr>doc_songs = Some [Song_to_dict alpha],
          doc_playlists = Some ([] @ \<lparr>pd_name = Some ''P'', pd_songs = None\<rparr> # [])\<rparr>)))
            \<lparr>songs := [alpha]\<rparr>,
          Reported (KeyError ''songs''))"
    using t [where self = "unloaded (Some (Document
         \<lparr>doc_songs = Some [Song_to_dict alpha],
          doc_playlists = Some ([] @ \<lparr>pd_name = Some ''P'', pd_songs = None\<rparr> # [])\<rparr>))"
        and data = "\<lparr>doc_songs = Some [Song_to_dict alpha],
          doc_playlists = Some ([] @ \<lparr>pd_name = Some ''P'', pd_songs = None\<rparr> # [])\<rparr>"
        and sds = "[Song_to_dict alpha]" and ss = "[alpha]" and pgood = "[]"
        and pbad = "\<lparr>pd_name = Some ''P'', pd_songs = None\<rparr>" and prest = "[]"
        and ploaded = "[]" and k = "''songs''"] d s2 p0 p1
    by simp
  show ?thesis
    using d s1 s2 p0 p1 r1 r2 r3 r4 r5 by simp
qed

end
